theory Spec2Isabelle
  imports Complex_Main
begin

section \<open>Conventions\<close>

text \<open>
  The C++ sources compute with \<^verbatim>\<open>float\<close>. A measurement of a box or of the environment is
  modelled as an exact \<^typ>\<open>real\<close>: the theorems below are about which expression each branch
  of the code evaluates, not about rounding. A quotient of two such floats need not be a number
  at all: with a zero divisor it is an infinity or NaN. So the one function below that divides floats,
  \<^verbatim>\<open>ResizeAtom::createBox\<close>, takes the division and the comparison of floats as parameters
  and keeps its quotients in a type of their own. A \<^verbatim>\<open>sptr<T>\<close> that may be null is a
  \<^typ>\<open>'a option\<close>. An exception is a value of type \<open>exn\<close>, and a function that may throw
  returns \<open>exn + 'a\<close> with \<open>Inl\<close> for the exception.

  An atom is held by one parent and a box is built anew by every layout call and held in one
  place, so atoms and boxes are values. The two kinds of object that the sources reach by more
  than one pointer are modelled as objects in a store: a middle atom, which is an element of
  the base of a Fenced atom and is listed in that atom's \<^verbatim>\<open>_m\<close>, and the placeholder box of a
  middle atom, which the atom keeps and which the layout of the base puts into the base box.
\<close>

section \<open>Boxes, environment and atoms\<close>

text \<open>
  A box carries the four measurements the layout code reads and writes (\<^verbatim>\<open>_width\<close>,
  \<^verbatim>\<open>_height\<close>, \<^verbatim>\<open>_depth\<close>, \<^verbatim>\<open>_shift\<close>) and, for a group, its children: \<open>Box w h d s cs\<close>.
  \<open>PlaceholderBox q\<close> is a pointer to the placeholder object \<open>q\<close> of a middle atom.
\<close>

datatype box =
    Box real real real real "box list"
  | PlaceholderBox nat

text \<open>
  Modelled from the spec: the class \<^verbatim>\<open>MiddleAtom\<close> (\<^verbatim>\<open>atom/atom_fence.h\<close>), whose constructor makes
  the placeholder, is not part of these sources. The spec speaks of the placeholder position of
  a middle delimiter in the base box tree: a placeholder marks a place and takes no room, so
  its width, height and depth are 0 and it has no children. Its shift is written by
  \<^verbatim>\<open>FencedAtom::createBox\<close> and is kept in the store.
\<close>

fun width :: "box \<Rightarrow> real" where
  "width (Box w h d s cs) = w"
| "width (PlaceholderBox q) = 0"

fun height :: "box \<Rightarrow> real" where
  "height (Box w h d s cs) = h"
| "height (PlaceholderBox q) = 0"

fun depth :: "box \<Rightarrow> real" where
  "depth (Box w h d s cs) = d"
| "depth (PlaceholderBox q) = 0"

fun children :: "box \<Rightarrow> box list" where
  "children (Box w h d s cs) = cs"
| "children (PlaceholderBox q) = []"

text \<open>\<^verbatim>\<open>new StrutBox(w, h, d, s)\<close>: a box without children.\<close>

definition StrutBox :: "real \<Rightarrow> real \<Rightarrow> real \<Rightarrow> real \<Rightarrow> box" where
  "StrutBox w h d s = Box w h d s []"

text \<open>\<^verbatim>\<open>StrutBox::empty()\<close>.\<close>

definition StrutBox_empty :: box where
  "StrutBox_empty = StrutBox 0 0 0 0"

text \<open>
  Modelled from the spec: \<^verbatim>\<open>Box::vlen\<close> (box/box.h) is not part of these sources. The spec
  calls it the box's total vertical extent: height plus depth.
\<close>

definition vlen :: "box \<Rightarrow> real" where
  "vlen b = height b + depth b"

text \<open>
  A middle atom: \<^verbatim>\<open>_sym\<close>, \<^verbatim>\<open>_height\<close> and the pointer \<^verbatim>\<open>_placeholder\<close>. The store holds
  the middle atoms by address and the shift of every placeholder object.
\<close>

record MiddleAtom =
  m_sym :: string
  m_height :: real
  m_placeholder :: nat

record shared =
  middleAtoms :: "nat \<Rightarrow> MiddleAtom"
  placeholderShift :: "nat \<Rightarrow> real"

text \<open>Reading \<^verbatim>\<open>b->_shift\<close>, and the assignment \<^verbatim>\<open>b->_shift = v\<close>.\<close>

fun shiftOf :: "shared \<Rightarrow> box \<Rightarrow> real" where
  "shiftOf S (Box w h d s cs) = s"
| "shiftOf S (PlaceholderBox q) = placeholderShift S q"

fun setShift :: "real \<Rightarrow> box \<Rightarrow> shared \<Rightarrow> box \<times> shared" where
  "setShift v (Box w h d s cs) S = (Box w h d v cs, S)"
| "setShift v (PlaceholderBox q) S =
     (PlaceholderBox q, S\<lparr>placeholderShift := (placeholderShift S)(q := v)\<rparr>)"

text \<open>
  Modelled from the spec: \<^verbatim>\<open>Box::replaceFirst\<close> (\<^verbatim>\<open>box/box_group\<close>) is not part of these sources.
  The spec says that a stretched middle delimiter is spliced back into the base box tree at
  its placeholder position: in the tree below the box, read from left to right with a box
  before its children, the first pointer to the placeholder object is exchanged for the new
  box. The box itself and all measurements stay as they are. \<open>replaceFirst_in\<close> works on a
  list of children and also tells whether it has exchanged a pointer.
\<close>

fun replaceFirst_in :: "nat \<Rightarrow> box \<Rightarrow> box list \<Rightarrow> box list \<times> bool" where
  "replaceFirst_in q to [] = ([], False)"
| "replaceFirst_in q to (PlaceholderBox r # cs) =
     (if r = q then (to # cs, True)
      else (case replaceFirst_in q to cs of (cs', found) \<Rightarrow> (PlaceholderBox r # cs', found)))"
| "replaceFirst_in q to (Box w h d s kids # cs) =
     (case replaceFirst_in q to kids of (kids', found) \<Rightarrow>
        if found then (Box w h d s kids' # cs, True)
        else (case replaceFirst_in q to cs of (cs', found') \<Rightarrow> (Box w h d s kids # cs', found')))"

fun replaceFirst :: "box \<Rightarrow> nat \<Rightarrow> box \<Rightarrow> box" where
  "replaceFirst (Box w h d s cs) q to = Box w h d s (fst (replaceFirst_in q to cs))"
| "replaceFirst (PlaceholderBox r) q to = PlaceholderBox r"

text \<open>
  The environment: \<open>axisHeight\<close> and \<open>scale\<close> are what \<^verbatim>\<open>env.axisHeight()\<close> and
  \<^verbatim>\<open>env.scale()\<close> return. \<open>vVariants\<close> and \<open>vAssemblyWidth\<close> stand for the font provider:
  width, height and depth of the pre-built variants of a delimiter symbol, smallest first, and
  the width of a delimiter assembled from parts.
\<close>

record env =
  axisHeight :: real
  scale :: real
  vVariants :: "string \<Rightarrow> (real \<times> real \<times> real) list"
  vAssemblyWidth :: "string \<Rightarrow> real"

text \<open>
  Modelled from the spec: \<^verbatim>\<open>createVDelim\<close> (\<^verbatim>\<open>box/box_factory\<close>) is not part of these sources.
  The spec's words are that a delimiter is built as a vertically stretched variant chosen or
  synthesized to match the requested extent: the first pre-built variant at least as tall as
  the request is chosen, and when there is none a delimiter of exactly the requested extent is
  synthesized. The box is a new one, with shift 0.
\<close>

definition createVDelim :: "string \<Rightarrow> env \<Rightarrow> real \<Rightarrow> box" where
  "createVDelim symb e h =
     (case List.find (\<lambda>(w, ht, d). h \<le> ht + d) (vVariants e symb) of
        Some (w, ht, d) \<Rightarrow> Box w ht d 0 []
      | None \<Rightarrow> Box (vAssemblyWidth e symb) h 0 0 [])"

datatype AtomType =
    AtomType_ordinary | AtomType_bigOperator | AtomType_binaryOperator | AtomType_relation
  | AtomType_opening | AtomType_closing | AtomType_accent | AtomType_interText | AtomType_hline

datatype Alignment =
    Alignment_left | Alignment_right | Alignment_center | Alignment_top | Alignment_bottom
  | Alignment_none

text \<open>
  The atom kinds the modelled functions inspect or build. \<open>SymbolAtom\<close> stands for every
  leaf atom, by name. A \<^verbatim>\<open>sptr<RowAtom>\<close> held as a field (\<^verbatim>\<open>_sub\<close> and \<^verbatim>\<open>_sup\<close> of
  \<^verbatim>\<open>CumulativeScriptsAtom\<close>, \<^verbatim>\<open>_elements\<close> of \<^verbatim>\<open>PhantomAtom\<close>) is the list of the row's
  elements. The fields of \<open>ScriptsAtom\<close> are \<^verbatim>\<open>_base\<close>, \<^verbatim>\<open>_sub\<close>, \<^verbatim>\<open>_sup\<close>, \<^verbatim>\<open>_align\<close>;
  those of \<open>RowAtom\<close> are its elements and its breakable flag. \<open>MiddleAtomAt p\<close> is a
  pointer to the middle atom at the address \<open>p\<close> of the store.
\<close>

datatype atom =
    SymbolAtom string
  | EmptyAtom
  | CharAtom char string
  | RowAtom "atom list" bool
  | ScriptsAtom "atom option" "atom option" "atom option" Alignment
  | CumulativeScriptsAtom "atom option" "atom list" "atom list"
  | PhantomAtom "atom list" bool bool bool
  | PlaceholderAtom real real real real
  | MiddleAtomAt nat

text \<open>
  Modelled from the spec: class \<^verbatim>\<open>RowAtom\<close> (\<^verbatim>\<open>atom/atom_row\<close>) is not part of these sources. A
  Row is an ordered sequence of child atoms; \<^verbatim>\<open>RowAtom(a)\<close> is the row of the one atom \<open>a\<close>,
  \<^verbatim>\<open>add\<close> appends at the end, and a null pointer is no atom and adds nothing.
\<close>

definition RowAtom_new :: "atom option \<Rightarrow> atom list" where
  "RowAtom_new a = (case a of None \<Rightarrow> [] | Some x \<Rightarrow> [x])"

definition RowAtom_add :: "atom list \<Rightarrow> atom option \<Rightarrow> atom list" where
  "RowAtom_add row el = (case el of None \<Rightarrow> row | Some x \<Rightarrow> row @ [x])"

text \<open>\<^verbatim>\<open>dynamic_cast<RowAtom*>(p.get()) != nullptr\<close>, for a pointer that may be null.\<close>

fun is_RowAtom :: "atom option \<Rightarrow> bool" where
  "is_RowAtom (Some (RowAtom xs br)) = True"
| "is_RowAtom a = False"

text \<open>
  What the modelled functions call but these sources do not hold: the virtual
  \<^verbatim>\<open>createBox\<close>, \<^verbatim>\<open>leftType\<close> and \<^verbatim>\<open>rightType\<close> of a child atom, \<^verbatim>\<open>Glue::get\<close>, the
  virtual \<^verbatim>\<open>Box::isSpace\<close>, and an \<^verbatim>\<open>HBox\<close> built from its children in the order they are
  added. They are parameters of the model. The \<^verbatim>\<open>createBox\<close> of a child is any code at all:
  it reads the store (a row lays out the middle atoms it holds, at the height they have then)
  and it may write to the child and to the store, so \<open>createBoxOf\<close> gives the box together with
  the child and the store as the call leaves them. An \<^verbatim>\<open>HBox\<close> reads the shifts of its
  children, so \<open>hboxOf\<close> is given the store.
\<close>

record externals =
  createBoxOf :: "atom \<Rightarrow> env \<Rightarrow> shared \<Rightarrow> box \<times> atom \<times> shared"
  leftTypeOf :: "atom \<Rightarrow> AtomType"
  rightTypeOf :: "atom \<Rightarrow> AtomType"
  glueGet :: "AtomType \<Rightarrow> AtomType \<Rightarrow> env \<Rightarrow> box"
  isSpaceOf :: "box \<Rightarrow> bool"
  hboxOf :: "box list \<Rightarrow> shared \<Rightarrow> box"

text \<open>\<^verbatim>\<open>MiddleAtom::createBox\<close> (\<^verbatim>\<open>atom/atom_fence.cpp\<close>).\<close>

definition MiddleAtom_createBox :: "env \<Rightarrow> MiddleAtom \<Rightarrow> box" where
  "MiddleAtom_createBox e m =
     (if m_height m = 0 then PlaceholderBox (m_placeholder m)
      else createVDelim (m_sym m) e (m_height m))"

text \<open>
  The virtual call \<^verbatim>\<open>a->createBox(env)\<close> on a child \<open>a\<close>. For two of the atom kinds above
  the body is in these sources and calls nothing outside them: that of a middle atom, and
  \<^verbatim>\<open>ScriptsAtom::createBox\<close> (\<^verbatim>\<open>atom/atom_basic.cpp\<close>), which is
  \<^verbatim>\<open>return StrutBox::empty();\<close>. Neither writes to an atom. For every other kind the call
  is the parameter \<open>createBoxOf\<close>; that includes \<^verbatim>\<open>PhantomAtom\<close> and
  \<^verbatim>\<open>CumulativeScriptsAtom\<close>, whose \<^verbatim>\<open>createBox\<close> goes on to the layout of a row and to a
  constructor of \<^verbatim>\<open>ScriptsAtom\<close> that these sources do not hold.
\<close>

definition createBox_child :: "externals \<Rightarrow> atom \<Rightarrow> env \<Rightarrow> shared \<Rightarrow> box \<times> atom \<times> shared" where
  "createBox_child X a e S =
     (case a of
        ScriptsAtom b suba supa al \<Rightarrow> (StrutBox_empty, a, S)
      | MiddleAtomAt p \<Rightarrow> (MiddleAtom_createBox e (middleAtoms S p), a, S)
      | _ \<Rightarrow> createBoxOf X a e S)"

section \<open>Resize: \<^verbatim>\<open>ResizeAtom::createBox\<close> (\<^verbatim>\<open>atom/atom_misc.cpp\<close>)\<close>





section \<open>Fences: \<^verbatim>\<open>FencedAtom::createBox\<close> (\<^verbatim>\<open>atom/atom_fence.cpp\<close>)\<close>

text \<open>The list \<^verbatim>\<open>_m\<close> holds pointers to middle atoms: their addresses in the store.\<close>

record FencedAtom =
  f_base :: "atom option"
  f_l :: string
  f_r :: string
  f_m :: "nat list"

text \<open>The local function \<^verbatim>\<open>center\<close> of \<^verbatim>\<open>FencedAtom::createBox\<close>.\<close>

definition center :: "real \<Rightarrow> box \<Rightarrow> shared \<Rightarrow> box \<times> shared" where
  "center axis b S = setShift (- (vlen b / 2 - height b) - axis) b S"

text \<open>\<^verbatim>\<open>r->setBreakable(false)\<close> when the base is a \<^verbatim>\<open>RowAtom\<close>.\<close>

fun unbreakable :: "atom \<Rightarrow> atom" where
  "unbreakable (RowAtom xs br) = RowAtom xs False"
| "unbreakable a = a"

text \<open>
  One pass of the loop over \<^verbatim>\<open>_m\<close>, for the middle atom at the address \<open>p\<close>. \<open>middle_box\<close> is
  its first four lines: \<^verbatim>\<open>_height\<close> of the atom is overwritten with \<open>h\<close>, the atom is laid
  out, the box is centred and then shifted back by the shift of the base. When \<open>h\<close> is 0 the
  box is the placeholder object itself, and the two assignments write to the store. The
  last line of the pass hands the box to \<^verbatim>\<open>replaceFirst\<close>.
\<close>

definition middle_box :: "env \<Rightarrow> real \<Rightarrow> real \<Rightarrow> box \<Rightarrow> nat \<Rightarrow> shared \<Rightarrow> box \<times> shared" where
  "middle_box e axis h base p S =
     (let S1 = S\<lparr>middleAtoms := (middleAtoms S)(p := (middleAtoms S p)\<lparr>m_height := h\<rparr>)\<rparr>;
          b0 = MiddleAtom_createBox e (middleAtoms S1 p)
      in case center axis b0 S1 of (b1, S2) \<Rightarrow>
           setShift (shiftOf S2 b1 - shiftOf S2 base) b1 S2)"

fun fenced_middles :: "env \<Rightarrow> real \<Rightarrow> real \<Rightarrow> nat list \<Rightarrow> box \<Rightarrow> shared \<Rightarrow> box \<times> shared" where
  "fenced_middles e axis h [] base S = (base, S)"
| "fenced_middles e axis h (p # ps) base S =
     (case middle_box e axis h base p S of (b, S') \<Rightarrow>
        fenced_middles e axis h ps (replaceFirst base (m_placeholder (middleAtoms S' p)) b) S')"

text \<open>The left delimiter and the right delimiter, for the extent \<open>h\<close>: built and centred.\<close>

definition fenced_delim :: "env \<Rightarrow> string \<Rightarrow> real \<Rightarrow> shared \<Rightarrow> box \<times> shared" where
  "fenced_delim e symb h S = center (axisHeight e * scale e) (createVDelim symb e h) S"

text \<open>
  The function gives the box, and the atom and the store as the call leaves them: the call
  writes \<^verbatim>\<open>_breakable\<close> of a row base, \<^verbatim>\<open>_height\<close> of every middle atom in \<^verbatim>\<open>_m\<close> and the
  shift of a placeholder, and the layout of the base writes what it writes.
\<close>

definition FencedAtom_createBox ::
  "externals \<Rightarrow> env \<Rightarrow> shared \<Rightarrow> FencedAtom \<Rightarrow> box \<times> FencedAtom \<times> shared" where
  "FencedAtom_createBox X e S fa =
     (case f_base fa of
        None \<Rightarrow> (StrutBox_empty, fa, S)
      | Some a0 \<Rightarrow>
          (case createBox_child X (unbreakable a0) e S of (b0, a, S1) \<Rightarrow>
           (let axis = axisHeight e * scale e in
            case center axis b0 S1 of (base0, S2) \<Rightarrow>
            (let h = vlen base0 in
             case fenced_middles e axis h (f_m fa) base0 S2 of (base, S3) \<Rightarrow>
             (case (if f_l fa \<noteq> [] \<and> f_l fa \<noteq> ''.'' then
                      (case fenced_delim e (f_l fa) h S3 of (l, S4) \<Rightarrow>
                         (l # (if \<not> isSpaceOf X base
                               then [glueGet X AtomType_opening (leftTypeOf X a) e] else []), S4))
                    else ([], S3)) of (lpart, S4) \<Rightarrow>
              (case (if f_r fa \<noteq> [] \<and> f_r fa \<noteq> ''.'' then
                       (case fenced_delim e (f_r fa) h S4 of (r, S5) \<Rightarrow>
                          ((if \<not> isSpaceOf X base
                            then [glueGet X (rightTypeOf X a) AtomType_closing e] else []) @ [r], S5))
                     else ([], S4)) of (rpart, S5) \<Rightarrow>
                 (hboxOf X (lpart @ [base] @ rpart) S5, fa\<lparr>f_base := Some a\<rparr>, S5)))))))"

section \<open>Side sets: \<^verbatim>\<open>SideSetsAtom::createBox\<close> (\<^verbatim>\<open>atom/atom_basic.cpp\<close>)\<close>

record SideSetsAtom =
  ss_base :: "atom option"
  ss_left :: "atom option"
  ss_right :: "atom option"

text \<open>The constructor \<^verbatim>\<open>PhantomAtom(el, w, h, d)\<close> of \<^verbatim>\<open>atom/atom_basic.cpp\<close>.\<close>

definition PhantomAtom_new :: "atom option \<Rightarrow> bool \<Rightarrow> bool \<Rightarrow> bool \<Rightarrow> atom" where
  "PhantomAtom_new el w h d =
     (if el = None then PhantomAtom [] w h d else PhantomAtom (RowAtom_new el) w h d)"

text \<open>
  A side that is a \<^verbatim>\<open>ScriptsAtom\<close> without base gets the placeholder atom as its base; the
  left one is also aligned to the right.
\<close>

fun sideset_left :: "atom \<Rightarrow> atom option \<Rightarrow> atom option" where
  "sideset_left pa (Some (ScriptsAtom None suba supa al)) = Some (ScriptsAtom (Some pa) suba supa Alignment_right)"
| "sideset_left pa l = l"

fun sideset_right :: "atom \<Rightarrow> atom option \<Rightarrow> atom option" where
  "sideset_right pa (Some (ScriptsAtom None suba supa al)) = Some (ScriptsAtom (Some pa) suba supa al)"
| "sideset_right pa r = r"

text \<open>
  The test \<^verbatim>\<open>l != nullptr && l->_base == nullptr\<close> on a side cast to \<^verbatim>\<open>ScriptsAtom*\<close>.
\<close>

fun lacks_base :: "atom option \<Rightarrow> bool" where
  "lacks_base (Some (ScriptsAtom None suba supa al)) = True"
| "lacks_base a = False"

text \<open>
  \<^verbatim>\<open>if (_left != nullptr) hb->add(_left->createBox(env))\<close>, and the same for the right side:
  the boxes to add, and the side and the store as the call leaves them.
\<close>

definition layout_side ::
  "externals \<Rightarrow> env \<Rightarrow> atom option \<Rightarrow> shared \<Rightarrow> box list \<times> atom option \<times> shared" where
  "layout_side X e side S =
     (case side of
        None \<Rightarrow> ([], None, S)
      | Some a \<Rightarrow> (case createBox_child X a e S of (b, a1, S1) \<Rightarrow> ([b], Some a1, S1)))"

text \<open>
  The placeholder atom is given to both sides: it is one object in the C++ and an equal value
  in each side here. Only a \<^verbatim>\<open>ScriptsAtom\<close> is given it, and \<^verbatim>\<open>ScriptsAtom::createBox\<close>
  does not touch its base, so the two values stay equal. The \<^verbatim>\<open>HBox\<close> is given the store
  as it is when the call returns.
\<close>

definition SideSetsAtom_createBox ::
  "externals \<Rightarrow> env \<Rightarrow> shared \<Rightarrow> SideSetsAtom \<Rightarrow> box \<times> SideSetsAtom \<times> shared" where
  "SideSetsAtom_createBox X e S sa =
     (let base = (case ss_base sa of
                    None \<Rightarrow> PhantomAtom_new (Some (CharAtom CHR ''M'' ''mathnormal'')) False True True
                  | Some b \<Rightarrow> b)
      in case createBox_child X base e S of (bb, base1, S1) \<Rightarrow>
         (let pa = PlaceholderAtom 0 (height bb) (depth bb) (shiftOf S1 bb);
              l = sideset_left pa (ss_left sa);
              r = sideset_right pa (ss_right sa)
          in case layout_side X e l S1 of (lbs, l1, S2) \<Rightarrow>
             (case layout_side X e r S2 of (rbs, r1, S3) \<Rightarrow>
                (hboxOf X (lbs @ [bb] @ rbs) S3,
                 \<lparr>ss_base = Some base1, ss_left = l1, ss_right = r1\<rparr>, S3))))"

section \<open>Cumulative scripts: the constructor of \<^verbatim>\<open>CumulativeScriptsAtom\<close> (\<^verbatim>\<open>atom/atom_basic.cpp\<close>)\<close>

text \<open>
  In the first branch the C++ appends to the rows of the atom it was given and shares them;
  the value returned here is the new atom.
\<close>

definition CumulativeScriptsAtom_new :: "atom option \<Rightarrow> atom option \<Rightarrow> atom option \<Rightarrow> atom" where
  "CumulativeScriptsAtom_new base suba supa =
     (case base of
        Some (CumulativeScriptsAtom cbase csub csup) \<Rightarrow>
          CumulativeScriptsAtom cbase (RowAtom_add csub suba) (RowAtom_add csup supa)
      | Some (ScriptsAtom sbase ssub ssup al) \<Rightarrow>
          CumulativeScriptsAtom sbase (RowAtom_add (RowAtom_new ssub) suba) (RowAtom_add (RowAtom_new ssup) supa)
      | _ \<Rightarrow> CumulativeScriptsAtom base (RowAtom_new suba) (RowAtom_new supa))"

text \<open>
  A sequence of attachments: each is one constructor call on the atom the previous call
  returned, with its subscript and its superscript (either may be null).
\<close>

fun attach_scripts :: "atom option \<Rightarrow> (atom option \<times> atom option) list \<Rightarrow> atom option" where
  "attach_scripts base [] = base"
| "attach_scripts base ((suba, supa) # rest) =
     attach_scripts (Some (CumulativeScriptsAtom_new base suba supa)) rest"

text \<open>The subscripts, and the superscripts, of a sequence of attachments, in order.\<close>

definition attached_subs :: "(atom option \<times> atom option) list \<Rightarrow> atom list" where
  "attached_subs ss = concat (map (\<lambda>(suba, supa). RowAtom_new suba) ss)"

definition attached_sups :: "(atom option \<times> atom option) list \<Rightarrow> atom list" where
  "attached_sups ss = concat (map (\<lambda>(suba, supa). RowAtom_new supa) ss)"

text \<open>
  What an atom brings along when scripts are attached to it: a script atom brings its own
  base and its scripts, any other atom is the base and brings no scripts.
\<close>

fun scripts_base :: "atom option \<Rightarrow> atom option" where
  "scripts_base (Some (CumulativeScriptsAtom cbase csub csup)) = cbase"
| "scripts_base (Some (ScriptsAtom sbase ssub ssup al)) = sbase"
| "scripts_base base = base"

fun scripts_subs :: "atom option \<Rightarrow> atom list" where
  "scripts_subs (Some (CumulativeScriptsAtom cbase csub csup)) = csub"
| "scripts_subs (Some (ScriptsAtom sbase ssub ssup al)) = RowAtom_new ssub"
| "scripts_subs base = []"

fun scripts_sups :: "atom option \<Rightarrow> atom list" where
  "scripts_sups (Some (CumulativeScriptsAtom cbase csub csup)) = csup"
| "scripts_sups (Some (ScriptsAtom sbase ssub ssup al)) = RowAtom_new ssup"
| "scripts_sups base = []"

text \<open>The length of the chain of script atoms standing on one another's base.\<close>

fun script_chain :: "atom \<Rightarrow> nat" where
  "script_chain (CumulativeScriptsAtom (Some b) csub csup) = Suc (script_chain b)"
| "script_chain (CumulativeScriptsAtom None csub csup) = 1"
| "script_chain (ScriptsAtom (Some b) ssub ssup al) = Suc (script_chain b)"
| "script_chain (ScriptsAtom None ssub ssup al) = 1"
| "script_chain a = 0"

definition script_chain_opt :: "atom option \<Rightarrow> nat" where
  "script_chain_opt a = (case a of None \<Rightarrow> 0 | Some x \<Rightarrow> script_chain x)"

section \<open>Long division: \<^verbatim>\<open>LongDivAtom::calculate\<close> (\<^verbatim>\<open>atom/atom_misc.cpp\<close>)\<close>

text \<open>
  \<^verbatim>\<open>tostring(long)\<close> prints a number in decimal, with a leading minus sign for a
  negative one. \<open>long\<close> is modelled as \<^typ>\<open>int\<close>; the values stay far from the
  64-bit bounds in everything proved here.
\<close>

definition digit_char :: "nat \<Rightarrow> char" where
  "digit_char d = char_of (48 + d)"

fun dec_digits :: "nat \<Rightarrow> string" where
  "dec_digits n = (if n < 10 then [digit_char n] else dec_digits (n div 10) @ [digit_char (n mod 10)])"

declare dec_digits.simps [simp del]

definition tostring :: "int \<Rightarrow> string" where
  "tostring i = (if i < 0 then CHR ''-'' # dec_digits (nat (- i)) else dec_digits (nat i))"

text \<open>C++ integer division truncates towards zero.\<close>

definition cdiv :: "int \<Rightarrow> int \<Rightarrow> int" where
  "cdiv a b = sgn a * sgn b * (\<bar>a\<bar> div \<bar>b\<bar>)"

text \<open>
  The loop of \<^verbatim>\<open>calculate\<close>: \<open>x\<close> is the quotient's decimal string, \<open>len\<close> its
  length, \<open>i\<close> the loop counter. \<^verbatim>\<open>x[i] - '0'\<close> is the difference of the character
  codes; \<^verbatim>\<open>pow(10, len - i - 1)\<close> is the power of ten of that digit's place.
\<close>

function calculate_loop :: "int \<Rightarrow> string \<Rightarrow> nat \<Rightarrow> nat \<Rightarrow> int \<Rightarrow> string list \<Rightarrow> string list" where
  "calculate_loop divisor x len i remaining results =
     (if i < len then
        (let b = (int (of_char (x ! i)) - int (of_char CHR ''0'')) * 10 ^ (len - i - 1);
             product = b * divisor;
             remaining' = remaining - product
         in calculate_loop divisor x len (i + 1) remaining'
              (results @ [tostring product, tostring remaining']))
      else results)"
  by pat_completeness auto
termination
  by (relation "measure (\<lambda>(divisor, x, len, i, remaining, results). len - i)") auto

declare calculate_loop.simps [simp del]

text \<open>
  \<^verbatim>\<open>_dividend / _divisor\<close> with a zero divisor has no defined result in C++; the model
  returns \<open>None\<close> there.
\<close>

definition calculate :: "int \<Rightarrow> int \<Rightarrow> string list option" where
  "calculate divisor dividend =
     (if divisor = 0 then None
      else
        (let quotient = cdiv dividend divisor;
             results = [tostring quotient];
             x = tostring quotient;
             len = length x;
             remaining = dividend;
             results = results @ [tostring remaining]
         in Some (calculate_loop divisor x len 0 remaining results)))"

section \<open>Formula construction (core/formula)\<close>

text \<open>
  Modelled from the spec: the exception classes (utils/exceptions.h) are not part of these
  sources. These are the error kinds of the spec: parse error, invalid parameter, symbol not
  found, formula not found. All of them are \<^verbatim>\<open>std::exception\<close>s, which is the class the
  handlers below name.
\<close>

datatype exn = ex_parse | ex_invalid_param | ex_symbol_not_found | ex_formula_not_found

record Formula =
  f_root :: "atom option"
  f_textStyle :: string

text \<open>
  The parser (core/parser) is a parameter: given the partial flag and the text, it tells
  which root \<^verbatim>\<open>_parser.parse()\<close> has put into the formula when it ends, and the exception
  it ends with, if any. The flags \<^verbatim>\<open>firstpass\<close> and \<^verbatim>\<open>ignoreWhiteSpace\<close> only configure the
  parser and are part of it.
\<close>

type_synonym parser = "bool \<Rightarrow> string \<Rightarrow> atom option \<times> exn option"

text \<open>
  \<^verbatim>\<open>Formula(tp, latex, textStyle, firstpass, ignoreWhiteSpace)\<close>,
  \<^verbatim>\<open>Formula(tp, latex, textStyle)\<close> and \<^verbatim>\<open>Formula(tp, latex)\<close> have the same body;
  \<open>isPartial\<close> is \<^verbatim>\<open>tp.isPartial()\<close>.
\<close>

definition Formula_tp_latex_textStyle :: "parser \<Rightarrow> bool \<Rightarrow> string \<Rightarrow> string \<Rightarrow> exn + Formula" where
  "Formula_tp_latex_textStyle P isPartial latex textStyle =
     (case P isPartial latex of (r, raised) \<Rightarrow>
        if isPartial then
          (case raised of
             None \<Rightarrow> Inr \<lparr>f_root = r, f_textStyle = textStyle\<rparr>
           | Some ex \<Rightarrow>
               Inr \<lparr>f_root = (if r = None then Some EmptyAtom else r), f_textStyle = textStyle\<rparr>)
        else
          (case raised of
             None \<Rightarrow> Inr \<lparr>f_root = r, f_textStyle = textStyle\<rparr>
           | Some ex \<Rightarrow> Inl ex))"

definition Formula_tp_latex_textStyle_firstpass ::
  "parser \<Rightarrow> bool \<Rightarrow> string \<Rightarrow> string \<Rightarrow> exn + Formula" where
  "Formula_tp_latex_textStyle_firstpass P isPartial latex textStyle =
     Formula_tp_latex_textStyle P isPartial latex textStyle"

definition Formula_tp_latex :: "parser \<Rightarrow> bool \<Rightarrow> string \<Rightarrow> exn + Formula" where
  "Formula_tp_latex P isPartial latex = Formula_tp_latex_textStyle P isPartial latex []"

text \<open>\<^verbatim>\<open>Formula(tp, latex, firstpass)\<close>: its handler is empty.\<close>

definition Formula_tp_latex_firstpass :: "parser \<Rightarrow> bool \<Rightarrow> string \<Rightarrow> exn + Formula" where
  "Formula_tp_latex_firstpass P isPartial latex =
     (case P isPartial latex of (r, raised) \<Rightarrow>
        if isPartial then Inr \<lparr>f_root = r, f_textStyle = []\<rparr>
        else
          (case raised of
             None \<Rightarrow> Inr \<lparr>f_root = r, f_textStyle = []\<rparr>
           | Some ex \<Rightarrow> Inl ex))"

text \<open>\<^verbatim>\<open>Formula(latex)\<close>: no handler; the parser is built without the partial flag.\<close>

definition Formula_latex :: "parser \<Rightarrow> string \<Rightarrow> exn + Formula" where
  "Formula_latex P latex =
     (case P False latex of (r, raised) \<Rightarrow>
        (case raised of
           None \<Rightarrow> Inr \<lparr>f_root = r, f_textStyle = []\<rparr>
         | Some ex \<Rightarrow> Inl ex))"

text \<open>\<^verbatim>\<open>Formula::createBox\<close>, with the formula and the store as the layout of the root leaves them.\<close>

definition Formula_createBox :: "externals \<Rightarrow> env \<Rightarrow> shared \<Rightarrow> Formula \<Rightarrow> box \<times> Formula \<times> shared" where
  "Formula_createBox X e S f =
     (case f_root f of
        None \<Rightarrow> (StrutBox 0 0 0 0, f, S)
      | Some a \<Rightarrow> (case createBox_child X a e S of (b, a1, S1) \<Rightarrow> (b, f\<lparr>f_root := Some a1\<rparr>, S1)))"

text \<open>
  A Row with at least two children, and the root a constructor leaves behind when its handler
  has caught an exception: the root built so far, or an empty atom when there is none.
\<close>

fun multi_child_row :: "atom option \<Rightarrow> bool" where
  "multi_child_row (Some (RowAtom xs br)) = (2 \<le> length xs)"
| "multi_child_row a = False"

definition recovered_root :: "atom option \<Rightarrow> atom option" where
  "recovered_root r = (case r of None \<Rightarrow> Some EmptyAtom | Some a \<Rightarrow> Some a)"

section \<open>Predefined formulas: \<^verbatim>\<open>Formula::get\<close>\<close>

text \<open>
  A \<^verbatim>\<open>sptr<Formula>\<close> is the address of a formula object: an index into \<open>heap\<close>, where
  \<^verbatim>\<open>new Formula\<close> appends. The two static maps are partial functions.
\<close>

record registry =
  heap :: "Formula list"
  predefinedTeXFormulas :: "string \<rightharpoonup> nat"
  predefinedTeXFormulasAsString :: "string \<rightharpoonup> string"

definition Formula_get :: "parser \<Rightarrow> string \<Rightarrow> registry \<Rightarrow> (exn + nat) \<times> registry" where
  "Formula_get P name st =
     (case predefinedTeXFormulas st name of
        Some tf \<Rightarrow> (Inr tf, st)
      | None \<Rightarrow>
          (case predefinedTeXFormulasAsString st name of
             None \<Rightarrow> (Inl ex_formula_not_found, st)
           | Some latex \<Rightarrow>
               (case Formula_latex P latex of
                  Inl ex \<Rightarrow> (Inl ex, st)
                | Inr f \<Rightarrow>
                    (let tf = length (heap st);
                         st1 = st\<lparr>heap := heap st @ [f]\<rparr>;
                         st2 = (if \<not> is_RowAtom (f_root f)
                                then st1\<lparr>predefinedTeXFormulas := (predefinedTeXFormulas st1)(name \<mapsto> tf)\<rparr>
                                else st1)
                     in (Inr tf, st2)))))"

section \<open>Arrays: \<^verbatim>\<open>ArrayFormula\<close>\<close>

text \<open>
  A cell is a pointer to an atom or null. \<open>typeOf\<close> reads the field \<^verbatim>\<open>_type\<close> of an atom; it
  is a parameter, since the constructors that set the field are outside these sources. An
  access outside a vector has no defined result in C++: the functions return \<open>None\<close> there.
\<close>

record ArrayFormula =
  a_root :: "atom option"
  a_row :: nat
  a_col :: nat
  a_array :: "atom option list list"

definition addCol :: "ArrayFormula \<Rightarrow> ArrayFormula option" where
  "addCol f =
     (if a_row f < length (a_array f) then
        Some (f\<lparr>a_array := (a_array f)[a_row f := a_array f ! a_row f @ [a_root f]],
                a_root := None,
                a_col := a_col f + 1\<rparr>)
      else None)"

definition addRow :: "ArrayFormula \<Rightarrow> ArrayFormula option" where
  "addRow f =
     (case addCol f of
        None \<Rightarrow> None
      | Some g \<Rightarrow> Some (g\<lparr>a_array := a_array g @ [[]], a_row := a_row g + 1, a_col := 0\<rparr>))"

text \<open>The first loop of \<^verbatim>\<open>checkDimensions\<close>: the column count of the widest row.\<close>

function widest_loop :: "atom option list list \<Rightarrow> nat \<Rightarrow> nat \<Rightarrow> nat \<Rightarrow> nat" where
  "widest_loop arr row i col =
     (if i < row then
        widest_loop arr row (i + 1) (if length (arr ! i) > col then length (arr ! i) else col)
      else col)"
  by pat_completeness auto
termination
  by (relation "measure (\<lambda>(arr, row, i, col). row - i)") auto

declare widest_loop.simps [simp del]

text \<open>
  The body of the second loop for one row \<open>r\<close>: the row is filled with null cells when its
  length differs from the column count and its first cell is an atom that is not of type
  \<^verbatim>\<open>interText\<close>. Reading the first cell of an empty row has no defined result.
\<close>

definition fill_row :: "(atom \<Rightarrow> AtomType) \<Rightarrow> nat \<Rightarrow> atom option list \<Rightarrow> atom option list option" where
  "fill_row typeOf col r =
     (if length r \<noteq> col then
        (case r of
           [] \<Rightarrow> None
         | c # cs \<Rightarrow>
             (case c of
                None \<Rightarrow> Some r
              | Some a \<Rightarrow>
                  if typeOf a \<noteq> AtomType_interText then Some (r @ replicate (col - length r) None)
                  else Some r))
      else Some r)"

function fill_loop ::
  "(atom \<Rightarrow> AtomType) \<Rightarrow> atom option list list \<Rightarrow> nat \<Rightarrow> nat \<Rightarrow> nat \<Rightarrow> atom option list list option" where
  "fill_loop typeOf arr row col i =
     (if i < row then
        (case fill_row typeOf col (arr ! i) of
           None \<Rightarrow> None
         | Some r \<Rightarrow> fill_loop typeOf (arr[i := r]) row col (i + 1))
      else Some arr)"
  by pat_completeness auto
termination
  by (relation "measure (\<lambda>(typeOf, arr, row, col, i). row - i)") auto

declare fill_loop.simps [simp del]

text \<open>
  \<^verbatim>\<open>checkDimensions\<close> after its first statement: \<^verbatim>\<open>_row\<close> and \<^verbatim>\<open>_col\<close> are set and the
  rows before the last one are filled.
\<close>

definition checkDimensions_fill :: "(atom \<Rightarrow> AtomType) \<Rightarrow> ArrayFormula \<Rightarrow> ArrayFormula option" where
  "checkDimensions_fill typeOf f =
     (if a_array f = [] then None
      else
        (let row = length (a_array f) - 1;
             col = widest_loop (a_array f) row 1 (length (a_array f ! 0))
         in (case fill_loop typeOf (a_array f) row col 0 of
               None \<Rightarrow> None
             | Some arr \<Rightarrow> Some (f\<lparr>a_row := row, a_col := col, a_array := arr\<rparr>))))"

text \<open>
  The first statement of \<^verbatim>\<open>checkDimensions\<close>: a last row that has cells, or a pending root,
  is closed by \<^verbatim>\<open>addRow\<close>.
\<close>

definition checkDimensions_close :: "ArrayFormula \<Rightarrow> ArrayFormula option" where
  "checkDimensions_close f =
     (if a_array f = [] then None
      else if length (last (a_array f)) \<noteq> 0 \<or> a_root f \<noteq> None then addRow f
      else Some f)"

definition checkDimensions :: "(atom \<Rightarrow> AtomType) \<Rightarrow> ArrayFormula \<Rightarrow> ArrayFormula option" where
  "checkDimensions typeOf f =
     (case checkDimensions_close f of
        None \<Rightarrow> None
      | Some f1 \<Rightarrow> checkDimensions_fill typeOf f1)"

text \<open>
  The rows that the second loop fills: those whose first cell is an atom that is not an
  inter-text marker.
\<close>

definition wants_fill :: "(atom \<Rightarrow> AtomType) \<Rightarrow> atom option list \<Rightarrow> bool" where
  "wants_fill typeOf r =
     (case r of
        [] \<Rightarrow> False
      | c # cs \<Rightarrow> (case c of None \<Rightarrow> False | Some a \<Rightarrow> typeOf a \<noteq> AtomType_interText))"

section \<open>Initialisation: \<^verbatim>\<open>MicroTeX::init\<close> (lib/microtex.cpp)\<close>

record Config =
  isInited :: bool
  defaultMainFontFamily :: string
  defaultMathFontName :: string
  renderGlyphUsePath :: bool

text \<open>
  The fields \<^verbatim>\<open>family\<close>, \<^verbatim>\<open>name\<close> and \<^verbatim>\<open>isMathFont\<close> of \<^verbatim>\<open>FontMeta\<close>, which microtex.cpp reads. \<^verbatim>\<open>return {}\<close> returns the
  value-initialised one.
\<close>

record FontMeta =
  fm_family :: string
  fm_name :: string
  fm_isMathFont :: bool

definition FontMeta_empty :: FontMeta where
  "FontMeta_empty = \<lparr>fm_family = [], fm_name = [], fm_isMathFont = False\<rparr>"

text \<open>
  The state is the configuration and, as \<open>'w\<close>, everything the collaborators own: the fonts of
  \<^verbatim>\<open>FontContext\<close> and the macros of \<^verbatim>\<open>NewCommandMacro\<close>. \<open>'src\<close> is \<^verbatim>\<open>FontSrc\<close> and
  \<open>'init\<close> is the variant \<^verbatim>\<open>Init\<close>. \<^verbatim>\<open>FontContext::addFont\<close>, \<^verbatim>\<open>FontMeta::isValid\<close>,
  \<^verbatim>\<open>NewCommandMacro::_init_\<close> and the visit of \<^verbatim>\<open>InitVisitor\<close> are parameters. An exception
  leaves the state as it is when it is thrown.
\<close>

record ('src, 'init, 'w) collaborators =
  addFont :: "'src \<Rightarrow> 'w \<Rightarrow> FontMeta \<times> 'w"
  metaIsValid :: "FontMeta \<Rightarrow> bool"
  newCommandMacro_init :: "'w \<Rightarrow> 'w"
  visitInit :: "'init \<Rightarrow> 'w \<Rightarrow> (exn + FontMeta) \<times> 'w"

text \<open>\<^verbatim>\<open>MicroTeX::init(const FontSrc&)\<close>.\<close>

definition MicroTeX_init ::
  "('src, 'init, 'w) collaborators \<Rightarrow> 'src \<Rightarrow> Config \<times> 'w \<Rightarrow> (exn + FontMeta) \<times> Config \<times> 'w" where
  "MicroTeX_init C mathFontSrc st =
     (case st of (cfg, w) \<Rightarrow>
        if isInited cfg then (Inr FontMeta_empty, cfg, w)
        else
          (case addFont C mathFontSrc w of (meta, w1) \<Rightarrow>
             if \<not> metaIsValid C meta then (Inl ex_invalid_param, cfg, w1)
             else
               (Inr meta,
                cfg\<lparr>defaultMathFontName := fm_name meta, isInited := True\<rparr>,
                newCommandMacro_init C w1)))"

text \<open>\<^verbatim>\<open>MicroTeX::init(const Init&)\<close>, compiled with \<^verbatim>\<open>HAVE_AUTO_FONT_FIND\<close>.\<close>

definition MicroTeX_init_auto ::
  "('src, 'init, 'w) collaborators \<Rightarrow> 'init \<Rightarrow> Config \<times> 'w \<Rightarrow> (exn + FontMeta) \<times> Config \<times> 'w" where
  "MicroTeX_init_auto C init st =
     (case st of (cfg, w) \<Rightarrow>
        if isInited cfg then (Inr FontMeta_empty, cfg, w)
        else
          (case visitInit C init w of
             (Inl ex, w1) \<Rightarrow> (Inl ex, cfg, w1)
           | (Inr meta, w1) \<Rightarrow>
               (Inr meta,
                cfg\<lparr>defaultMathFontName := fm_name meta, isInited := True\<rparr>,
                newCommandMacro_init C w1)))"

text \<open>\<^verbatim>\<open>MicroTeX::isInited\<close>.\<close>

definition MicroTeX_isInited :: "Config \<times> 'w \<Rightarrow> bool" where
  "MicroTeX_isInited st = isInited (fst st)"

section \<open>Sample values\<close>

text \<open>
  Concrete inputs on which the theorems below are evaluated: an environment with three
  pre-built delimiter variants, a store of middle atoms, collaborators that lay a row out as
  the boxes of its elements, floats with their infinities, a parser that knows a handful of
  texts, a registry of three predefined formulas, and a few atoms.
\<close>

definition example_env :: env where
  "example_env = \<lparr>axisHeight = 1/4, scale = 1,
     vVariants = (\<lambda>s. [(1/4, 3/4, 1/4), (1/2, 3/2, 1/2), (1, 3, 1)]),
     vAssemblyWidth = (\<lambda>s. 1/2)\<rparr>"


text \<open>
  In the sample store the middle atom at the address \<open>p\<close> is a vertical bar that has not been
  laid out yet, with the placeholder object \<open>10 + p\<close>.
\<close>

definition example_shared :: shared where
  "example_shared = \<lparr>middleAtoms = (\<lambda>p. \<lparr>m_sym = ''vert'', m_height = 0, m_placeholder = 10 + p\<rparr>),
     placeholderShift = (\<lambda>q. 0)\<rparr>"

text \<open>
  The sample layout of a child writes nothing. An element of a row that is a middle atom is
  laid out by \<open>MiddleAtom_createBox\<close>, an empty atom as an empty strut, a phantom as a strut
  without width, and any other element as a box of width 1, height \<open>3/2\<close> and depth \<open>1/2\<close>
  times the scale. A row is laid out as a box around the boxes of its elements, as wide as
  they are together and as high and as deep as the highest and the deepest of them.
\<close>

definition example_leaf :: "env \<Rightarrow> shared \<Rightarrow> atom \<Rightarrow> box" where
  "example_leaf e S a =
     (case a of
        MiddleAtomAt p \<Rightarrow> MiddleAtom_createBox e (middleAtoms S p)
      | EmptyAtom \<Rightarrow> Box 0 0 0 0 []
      | PhantomAtom xs w h d \<Rightarrow> Box 0 (3/2 * scale e) (1/2 * scale e) 0 []
      | _ \<Rightarrow> Box 1 (3/2 * scale e) (1/2 * scale e) 0 [])"

definition example_createBoxOf :: "atom \<Rightarrow> env \<Rightarrow> shared \<Rightarrow> box \<times> atom \<times> shared" where
  "example_createBoxOf a e S =
     (case a of
        RowAtom xs br \<Rightarrow>
          (Box (sum_list (map (\<lambda>x. width (example_leaf e S x)) xs))
               (foldr (\<lambda>x m. max (height (example_leaf e S x)) m) xs 0)
               (foldr (\<lambda>x m. max (depth (example_leaf e S x)) m) xs 0) 0
             (map (example_leaf e S) xs), a, S)
      | _ \<Rightarrow> (example_leaf e S a, a, S))"

definition example_externals :: externals where
  "example_externals = \<lparr>
     createBoxOf = example_createBoxOf,
     leftTypeOf = (\<lambda>a. AtomType_ordinary),
     rightTypeOf = (\<lambda>a. AtomType_ordinary),
     glueGet = (\<lambda>l r e. Box (1/8) 0 0 0 []),
     isSpaceOf = (\<lambda>b. children b = [] \<and> height b = 0 \<and> depth b = 0),
     hboxOf = (\<lambda>bs S. Box (sum_list (map width bs)) 0 0 0 bs)\<rparr>"








text \<open>
  A Fenced atom whose base is a row of an empty atom, the middle atom at the address 0 and a
  symbol; one whose base is a row of that middle atom alone; and one whose base is that middle
  atom itself.
\<close>

definition example_fenced :: FencedAtom where
  "example_fenced = \<lparr>f_base = Some (RowAtom [EmptyAtom, MiddleAtomAt 0, SymbolAtom ''y''] True),
     f_l = ''lbrack'', f_r = ''.'', f_m = [0]\<rparr>"



definition example_sidesets :: SideSetsAtom where
  "example_sidesets = \<lparr>ss_base = None,
     ss_left = Some (ScriptsAtom None (Some (SymbolAtom ''a'')) None Alignment_left),
     ss_right = None\<rparr>"

definition example_sidesets_based :: SideSetsAtom where
  "example_sidesets_based = \<lparr>ss_base = Some (SymbolAtom ''x''),
     ss_left = Some (ScriptsAtom (Some (SymbolAtom ''p'')) (Some (SymbolAtom ''a'')) None Alignment_left),
     ss_right = None\<rparr>"

definition example_parser :: parser where
  "example_parser isPartial latex =
     (if latex = ''x'' then (Some (SymbolAtom ''x''), None)
      else if latex = ''{x}'' then (Some (RowAtom [SymbolAtom ''x''] True), None)
      else if latex = ''a+b'' then
        (Some (RowAtom [SymbolAtom ''a'', SymbolAtom ''+'', SymbolAtom ''b''] True), None)
      else if latex = ''a}'' then (Some (SymbolAtom ''a''), Some ex_parse)
      else if latex = ''?'' then (None, Some ex_symbol_not_found)
      else (None, Some ex_parse))"

definition example_registry :: registry where
  "example_registry = \<lparr>heap = [], predefinedTeXFormulas = Map.empty,
     predefinedTeXFormulasAsString = [''one'' \<mapsto> ''x'', ''group'' \<mapsto> ''{x}'', ''sum'' \<mapsto> ''a+b'']\<rparr>"

definition example_typeOf :: "atom \<Rightarrow> AtomType" where
  "example_typeOf a = (if a = SymbolAtom ''intertext'' then AtomType_interText else AtomType_ordinary)"

definition example_array :: ArrayFormula where
  "example_array = \<lparr>a_root = Some (SymbolAtom ''x''), a_row = 1, a_col = 0,
     a_array = [[Some (SymbolAtom ''a''), Some (SymbolAtom ''b''), Some (SymbolAtom ''c'')], []]\<rparr>"

definition example_array_closed :: ArrayFormula where
  "example_array_closed = \<lparr>a_root = None, a_row = 2, a_col = 0,
     a_array = [[Some (SymbolAtom ''a''), Some (SymbolAtom ''b''), Some (SymbolAtom ''c'')],
                [Some (SymbolAtom ''x'')], []]\<rparr>"

definition example_array_empty_cell :: ArrayFormula where
  "example_array_empty_cell = \<lparr>a_root = None, a_row = 2, a_col = 0,
     a_array = [[Some (SymbolAtom ''a''), Some (SymbolAtom ''b''), Some (SymbolAtom ''c'')],
                [None, Some (SymbolAtom ''d'')], []]\<rparr>"

definition example_collaborators :: "(string, unit, FontMeta list) collaborators" where
  "example_collaborators = \<lparr>
     addFont = (\<lambda>src fonts. (\<lparr>fm_family = ''XITS'', fm_name = src, fm_isMathFont = True\<rparr>,
                              fonts @ [\<lparr>fm_family = ''XITS'', fm_name = src, fm_isMathFont = True\<rparr>])),
     metaIsValid = (\<lambda>m. fm_name m \<noteq> []),
     newCommandMacro_init = (\<lambda>fonts. fonts),
     visitInit = (\<lambda>u fonts. (Inl ex_invalid_param, fonts))\<rparr>"

definition example_config :: Config where
  "example_config = \<lparr>isInited = True, defaultMainFontFamily = ''Serif'',
     defaultMathFontName = ''XITS Math'', renderGlyphUsePath = False\<rparr>"

section \<open>Auxiliary lemmas\<close>

subsection \<open>Boxes and delimiters\<close>

lemma setShift_fst:
  "vlen (fst (setShift v b S)) = vlen b" "height (fst (setShift v b S)) = height b"
  "depth (fst (setShift v b S)) = depth b" "width (fst (setShift v b S)) = width b"
  by (cases b; simp add: vlen_def)+

lemma createVDelim_Box:
  "\<exists>w ht d. createVDelim symb e h = Box w ht d 0 [] \<and> h \<le> ht + d"
proof (cases "List.find (\<lambda>(w, ht, d). h \<le> ht + d) (vVariants e symb)")
  case None
  then show ?thesis by (simp add: createVDelim_def)
next
  case (Some v)
  obtain w ht d where v: "v = (w, ht, d)" by (cases v)
  from Some have "h \<le> ht + d" by (auto simp: find_Some_iff v)
  with Some v show ?thesis by (simp add: createVDelim_def)
qed

lemma createVDelim_vlen: "h \<le> vlen (createVDelim symb e h)"
  using createVDelim_Box [of symb e h] by (auto simp: vlen_def)

lemma fenced_delim_eq:
  "fenced_delim e symb h S = (fst (fenced_delim e symb h T), S)"
  using createVDelim_Box [of symb e h] by (auto simp: fenced_delim_def center_def)




lemma middle_box_middleAtoms:
  "middleAtoms (snd (middle_box e axis h base p S)) = (middleAtoms S)(p := (middleAtoms S p)\<lparr>m_height := h\<rparr>)"
  using createVDelim_Box [of "m_sym (middleAtoms S p)" e h]
  by (auto simp: middle_box_def Let_def MiddleAtom_createBox_def center_def vlen_def)






lemma center_sel:
  "vlen (fst (center axis b S)) = vlen b" "height (fst (center axis b S)) = height b"
  "shiftOf (snd (center axis b S)) (fst (center axis b S)) = - (vlen b / 2 - height b) - axis"
  "middleAtoms (snd (center axis b S)) = middleAtoms S"
  "(fst (center axis b S) = PlaceholderBox r) = (b = PlaceholderBox r)"
  by (cases b; simp add: center_def vlen_def)+

text \<open>What the loop writes into the middle atoms, whatever the base box is.\<close>

lemma fenced_middles_middleAtoms:
  "middleAtoms (snd (fenced_middles e axis h ps base S)) =
     (\<lambda>p. if p \<in> set ps then (middleAtoms S p)\<lparr>m_height := h\<rparr> else middleAtoms S p)"
proof (induction ps arbitrary: base S)
  case Nil
  then show ?case by simp
next
  case (Cons p ps)
  show ?case
    by (auto simp: Cons.IH split_beta middle_box_middleAtoms fun_eq_iff)
qed

lemma sideset_left_keeps: "\<not> lacks_base l \<Longrightarrow> sideset_left pa l = l"
  by (induction pa l rule: sideset_left.induct) simp_all

lemma sideset_right_keeps: "\<not> lacks_base r \<Longrightarrow> sideset_right pa r = r"
  by (induction pa r rule: sideset_right.induct) simp_all

lemma FencedAtom_createBox_writes:
  assumes "f_base fa = Some a0" and "createBox_child X (unbreakable a0) e S = (b0, a, S1)"
  shows "fst (snd (FencedAtom_createBox X e S fa)) = fa\<lparr>f_base := Some a\<rparr>"
    and "middleAtoms (snd (snd (FencedAtom_createBox X e S fa))) =
           (\<lambda>p. if p \<in> set (f_m fa) then (middleAtoms S1 p)\<lparr>m_height := vlen b0\<rparr> else middleAtoms S1 p)"
proof -
  define axis where "axis = axisHeight e * scale e"
  define base where "base = fst (center axis b0 S1)"
  define S2 where "S2 = snd (center axis b0 S1)"
  define S3 where "S3 = snd (fenced_middles e axis (vlen b0) (f_m fa) base S2)"
  have cen: "center axis b0 S1 = (base, S2)" by (simp add: base_def S2_def)
  have v: "vlen base = vlen b0" by (simp add: base_def center_sel)
  have fm: "fenced_middles e axis (vlen b0) (f_m fa) base S2
              = (fst (fenced_middles e axis (vlen b0) (f_m fa) base S2), S3)"
    by (simp add: S3_def)
  have dl: "fenced_delim e symb h T = (fst (fenced_delim e symb h S), T)" for symb h T
    by (rule fenced_delim_eq)
  have res: "snd (FencedAtom_createBox X e S fa) = (fa\<lparr>f_base := Some a\<rparr>, S3)"
    unfolding FencedAtom_createBox_def
    apply (simp add: assms Let_def axis_def [symmetric] cen v)
    apply (subst fm)
    apply (simp add: dl [where T = S3])
    done
  show "fst (snd (FencedAtom_createBox X e S fa)) = fa\<lparr>f_base := Some a\<rparr>"
    by (simp add: res)
  show "middleAtoms (snd (snd (FencedAtom_createBox X e S fa))) =
           (\<lambda>p. if p \<in> set (f_m fa) then (middleAtoms S1 p)\<lparr>m_height := vlen b0\<rparr> else middleAtoms S1 p)"
  proof -
    have ma2: "middleAtoms S2 = middleAtoms S1" by (simp add: S2_def center_sel)
    have m3: "middleAtoms S3 =
           (\<lambda>p. if p \<in> set (f_m fa) then (middleAtoms S1 p)\<lparr>m_height := vlen b0\<rparr> else middleAtoms S1 p)"
      using fenced_middles_middleAtoms [of e axis "vlen b0" "f_m fa" base S2]
      unfolding S3_def ma2 .
    show ?thesis by (simp add: res m3)
  qed
qed


text \<open>
  When the \<^verbatim>\<open>createBox\<close> of the atom kinds outside these sources writes nothing, the
  layout of a child writes nothing.
\<close>

lemma createBox_child_pure:
  assumes "\<forall>c T. snd (createBoxOf X c e T) = (c, T)"
  shows "snd (createBox_child X c e T) = (c, T)"
  using assms by (cases c) (simp_all add: createBox_child_def)

lemma layout_side_Scripts:
  "layout_side X e (Some (ScriptsAtom b suba supa al)) S =
     ([StrutBox_empty], Some (ScriptsAtom b suba supa al), S)"
  by (simp add: layout_side_def createBox_child_def)

lemma layout_side_None: "layout_side X e None S = ([], None, S)"
  by (simp add: layout_side_def)

lemma layout_side_pure:
  assumes "\<forall>c T. snd (createBoxOf X c e T) = (c, T)"
  shows "snd (layout_side X e side S) = (side, S)"
proof (cases side)
  case None
  then show ?thesis by (simp add: layout_side_def)
next
  case (Some c)
  with createBox_child_pure [OF assms, of c S] show ?thesis
    by (simp add: layout_side_def split_beta prod_eq_iff)
qed

lemma SideSetsAtom_createBox_writes:
  assumes "createBox_child X
       (case ss_base sa of
          None \<Rightarrow> PhantomAtom [CharAtom CHR ''M'' ''mathnormal''] False True True
        | Some b \<Rightarrow> b) e S = (bb, base1, S1)"
  shows "fst (snd (SideSetsAtom_createBox X e S sa)) =
           \<lparr>ss_base = Some base1,
            ss_left = fst (snd (layout_side X e
                        (sideset_left (PlaceholderAtom 0 (height bb) (depth bb) (shiftOf S1 bb)) (ss_left sa)) S1)),
            ss_right = fst (snd (layout_side X e
                        (sideset_right (PlaceholderAtom 0 (height bb) (depth bb) (shiftOf S1 bb)) (ss_right sa))
                        (snd (snd (layout_side X e
                           (sideset_left (PlaceholderAtom 0 (height bb) (depth bb) (shiftOf S1 bb)) (ss_left sa)) S1)))))\<rparr>"
    and "snd (snd (SideSetsAtom_createBox X e S sa)) =
           snd (snd (layout_side X e
                        (sideset_right (PlaceholderAtom 0 (height bb) (depth bb) (shiftOf S1 bb)) (ss_right sa))
                        (snd (snd (layout_side X e
                           (sideset_left (PlaceholderAtom 0 (height bb) (depth bb) (shiftOf S1 bb)) (ss_left sa)) S1)))))"
  using assms
  by (cases "ss_base sa";
      simp add: SideSetsAtom_createBox_def Let_def split_beta PhantomAtom_new_def RowAtom_new_def)+

subsection \<open>Script rows\<close>

lemma attached_subs_Cons: "attached_subs ((a, b) # ss) = RowAtom_new a @ attached_subs ss"
  by (simp add: attached_subs_def)

lemma attached_sups_Cons: "attached_sups ((a, b) # ss) = RowAtom_new b @ attached_sups ss"
  by (simp add: attached_sups_def)

lemma RowAtom_add_eq: "RowAtom_add row el = row @ RowAtom_new el"
  by (simp add: RowAtom_add_def RowAtom_new_def split: option.splits)

text \<open>The three branches of the constructor, read as one.\<close>

lemma CumulativeScriptsAtom_new_eq:
  "CumulativeScriptsAtom_new base a b =
     CumulativeScriptsAtom (scripts_base base)
       (scripts_subs base @ RowAtom_new a) (scripts_sups base @ RowAtom_new b)"
proof (cases base)
  case None
  then show ?thesis by (simp add: CumulativeScriptsAtom_new_def)
next
  case (Some x)
  then show ?thesis
    by (cases x) (simp_all add: CumulativeScriptsAtom_new_def RowAtom_add_eq)
qed

lemma attach_scripts_cumulative:
  "attach_scripts (Some (CumulativeScriptsAtom b s p)) ss =
     Some (CumulativeScriptsAtom b (s @ attached_subs ss) (p @ attached_sups ss))"
proof (induction ss arbitrary: s p)
  case Nil
  then show ?case by (simp add: attached_subs_def attached_sups_def)
next
  case (Cons x ss)
  obtain a c where x: "x = (a, c)" by (cases x)
  show ?case
    unfolding x
    by (simp add: Cons.IH CumulativeScriptsAtom_new_eq attached_subs_Cons attached_sups_Cons)
qed

lemma script_chain_scripts_base:
  "script_chain (CumulativeScriptsAtom (scripts_base base) s p) = max 1 (script_chain_opt base)"
proof (cases base)
  case None
  then show ?thesis by (simp add: script_chain_opt_def)
next
  case (Some x)
  have *: "script_chain (CumulativeScriptsAtom ob u v) = Suc (script_chain_opt ob)" for ob u v
    by (cases ob) (simp_all add: script_chain_opt_def)
  have **: "script_chain (ScriptsAtom ob u v al) = Suc (script_chain_opt ob)" for ob u v al
    by (cases ob) (simp_all add: script_chain_opt_def)
  show ?thesis
    unfolding Some
    by (cases x) (simp_all add: * ** script_chain_opt_def)
qed

subsection \<open>The loops of \<^verbatim>\<open>checkDimensions\<close>\<close>

lemma widest_loop_bounds:
  "col \<le> widest_loop arr row i col
   \<and> (\<forall>k. i \<le> k \<and> k < row \<longrightarrow> length (arr ! k) \<le> widest_loop arr row i col)
   \<and> (widest_loop arr row i col = col
        \<or> (\<exists>k. i \<le> k \<and> k < row \<and> length (arr ! k) = widest_loop arr row i col))"
proof (induction arr row i col rule: widest_loop.induct)
  case (1 arr row i col)
  show ?case
  proof (cases "i < row")
    case False
    then show ?thesis by (simp add: widest_loop.simps)
  next
    case True
    let ?c = "if length (arr ! i) > col then length (arr ! i) else col"
    have w: "widest_loop arr row i col = widest_loop arr row (i + 1) ?c"
      using True by (subst widest_loop.simps) simp
    note IH = "1.IH" [OF True]
    have a: "col \<le> widest_loop arr row i col"
      using IH unfolding w by (auto split: if_splits)
    have b: "\<forall>k. i \<le> k \<and> k < row \<longrightarrow> length (arr ! k) \<le> widest_loop arr row i col"
    proof (intro allI impI)
      fix k assume k: "i \<le> k \<and> k < row"
      show "length (arr ! k) \<le> widest_loop arr row i col"
      proof (cases "k = i")
        case True
        have "length (arr ! i) \<le> ?c" by simp
        also have "?c \<le> widest_loop arr row (i + 1) ?c" using IH by blast
        finally show ?thesis unfolding w True .
      next
        case False
        with k have "i + 1 \<le> k \<and> k < row" by simp
        then show ?thesis unfolding w using IH by blast
      qed
    qed
    have c: "widest_loop arr row i col = col
        \<or> (\<exists>k. i \<le> k \<and> k < row \<and> length (arr ! k) = widest_loop arr row i col)"
    proof -
      from IH have "widest_loop arr row (i + 1) ?c = ?c
        \<or> (\<exists>k. i + 1 \<le> k \<and> k < row \<and> length (arr ! k) = widest_loop arr row (i + 1) ?c)"
        by blast
      then show ?thesis
      proof
        assume e: "widest_loop arr row (i + 1) ?c = ?c"
        show ?thesis
        proof (cases "length (arr ! i) > col")
          case True
          with e w have "length (arr ! i) = widest_loop arr row i col" by simp
          with \<open>i < row\<close> show ?thesis by blast
        next
          case False
          with e w show ?thesis by simp
        qed
      next
        assume "\<exists>k. i + 1 \<le> k \<and> k < row \<and> length (arr ! k) = widest_loop arr row (i + 1) ?c"
        then obtain k where "i + 1 \<le> k" "k < row" "length (arr ! k) = widest_loop arr row (i + 1) ?c"
          by blast
        then have "i \<le> k \<and> k < row \<and> length (arr ! k) = widest_loop arr row i col"
          unfolding w by simp
        then show ?thesis by blast
      qed
    qed
    from a b c show ?thesis by blast
  qed
qed

lemma fill_row_eq:
  "r \<noteq> [] \<Longrightarrow>
   fill_row typeOf col r =
     Some (if wants_fill typeOf r then r @ replicate (col - length r) None else r)"
  by (cases r) (auto simp: fill_row_def wants_fill_def split: option.splits)

text \<open>
  When no row in its range is empty, the second loop returns, rewrites exactly the rows from
  \<open>i\<close> up to \<open>row\<close>, and leaves every other row as it was.
\<close>

lemma fill_loop_result:
  assumes "row \<le> length arr"
    and "\<forall>k. i \<le> k \<and> k < row \<longrightarrow> arr ! k \<noteq> []"
  shows "\<exists>arr'. fill_loop typeOf arr row col i = Some arr'
          \<and> length arr' = length arr
          \<and> (\<forall>k < length arr. arr' ! k =
                (if i \<le> k \<and> k < row
                 then (if wants_fill typeOf (arr ! k)
                       then arr ! k @ replicate (col - length (arr ! k)) None else arr ! k)
                 else arr ! k))"
  using assms
proof (induction typeOf arr row col i rule: fill_loop.induct)
  case (1 typeOf arr row col i)
  show ?case
  proof (cases "i < row")
    case False
    then show ?thesis by (simp add: fill_loop.simps)
  next
    case True
    let ?r = "if wants_fill typeOf (arr ! i)
              then arr ! i @ replicate (col - length (arr ! i)) None else arr ! i"
    have ne: "arr ! i \<noteq> []" using "1.prems"(2) True by simp
    have fr: "fill_row typeOf col (arr ! i) = Some ?r"
      using fill_row_eq [OF ne] .
    have step: "fill_loop typeOf arr row col i = fill_loop typeOf (arr[i := ?r]) row col (i + 1)"
      using True by (subst fill_loop.simps) (simp add: fr)
    have p1: "row \<le> length (arr[i := ?r])" using "1.prems"(1) by simp
    have p2: "\<forall>k. i + 1 \<le> k \<and> k < row \<longrightarrow> (arr[i := ?r]) ! k \<noteq> []"
      using "1.prems" by (auto simp: nth_list_update)
    from "1.IH" [OF True fr p1 p2]
    obtain arr' where A: "fill_loop typeOf (arr[i := ?r]) row col (i + 1) = Some arr'"
      and L: "length arr' = length (arr[i := ?r])"
      and N: "\<forall>k < length (arr[i := ?r]). arr' ! k =
                (if i + 1 \<le> k \<and> k < row
                 then (if wants_fill typeOf ((arr[i := ?r]) ! k)
                       then (arr[i := ?r]) ! k @ replicate (col - length ((arr[i := ?r]) ! k)) None
                       else (arr[i := ?r]) ! k)
                 else (arr[i := ?r]) ! k)"
      by blast
    have "\<forall>k < length arr. arr' ! k =
                (if i \<le> k \<and> k < row
                 then (if wants_fill typeOf (arr ! k)
                       then arr ! k @ replicate (col - length (arr ! k)) None else arr ! k)
                 else arr ! k)"
    proof (intro allI impI)
      fix k assume k: "k < length arr"
      show "arr' ! k =
                (if i \<le> k \<and> k < row
                 then (if wants_fill typeOf (arr ! k)
                       then arr ! k @ replicate (col - length (arr ! k)) None else arr ! k)
                 else arr ! k)"
      proof (cases "k = i")
        case True
        with N k \<open>i < row\<close> show ?thesis by simp
      next
        case False
        with N k show ?thesis by (auto simp: nth_list_update)
      qed
    qed
    with A L step show ?thesis by simp
  qed
qed

section \<open>Theorems\<close>

subsection \<open>Fenced atoms\<close>




subsection \<open>Resize\<close>



subsection \<open>Cumulative scripts\<close>

text \<open>
  C3. Attaching a non-empty sequence of scripts to a base gives one cumulative script atom.
  Its base is the base itself, or the base's own base when the base already is a
  CumulativeScripts or a Scripts atom; its subscript row is the scripts the base brought
  followed by the attached subscripts in order, and likewise for the superscripts. The chain
  of script atoms does not grow: it has length one over a plain base and keeps its length
  over a base that is a script atom.
\<close>

theorem cumulative_scripts_stay_flat:
  assumes "ss \<noteq> []"
  shows "attach_scripts base ss =
           Some (CumulativeScriptsAtom (scripts_base base)
                   (scripts_subs base @ attached_subs ss)
                   (scripts_sups base @ attached_sups ss))
       \<and> script_chain_opt (attach_scripts base ss) = max 1 (script_chain_opt base)"
proof -
  from assms obtain a c rest where ss: "ss = (a, c) # rest"
    by (cases ss) auto
  have eq: "attach_scripts base ss =
           Some (CumulativeScriptsAtom (scripts_base base)
                   (scripts_subs base @ attached_subs ss)
                   (scripts_sups base @ attached_sups ss))"
    unfolding ss
    by (simp add: CumulativeScriptsAtom_new_eq attach_scripts_cumulative
          attached_subs_Cons attached_sups_Cons)
  have "script_chain_opt (attach_scripts base ss) = max 1 (script_chain_opt base)"
    unfolding eq using script_chain_scripts_base [of base]
    by (simp add: script_chain_opt_def)
  with eq show ?thesis by simp
qed

text \<open>Subscript a, then superscript b, then subscript c on the base x.\<close>

theorem cumulative_scripts_stay_flat_witness:
  "attach_scripts (Some (SymbolAtom ''x''))
     [(Some (SymbolAtom ''a''), None), (None, Some (SymbolAtom ''b'')), (Some (SymbolAtom ''c''), None)]
   = Some (CumulativeScriptsAtom (Some (SymbolAtom ''x''))
             [SymbolAtom ''a'', SymbolAtom ''c''] [SymbolAtom ''b''])
   \<and> script_chain_opt (attach_scripts (Some (SymbolAtom ''x''))
     [(Some (SymbolAtom ''a''), None), (None, Some (SymbolAtom ''b'')), (Some (SymbolAtom ''c''), None)]) = 1"
  using cumulative_scripts_stay_flat [of
     "[(Some (SymbolAtom ''a''), None), (None, Some (SymbolAtom ''b'')), (Some (SymbolAtom ''c''), None)]"
     "Some (SymbolAtom ''x'')"]
  by (simp add: attached_subs_def attached_sups_def RowAtom_new_def script_chain_opt_def)

subsection \<open>Long division\<close>

text \<open>
  C4. For divisor 3 and dividend 7 the digit trace is the list "2", "7", "6", "1": the
  quotient, the initial remainder, then the partial product and the new remainder of the
  quotient's only digit.
\<close>

theorem longdiv_3_7_trace:
  "calculate 3 7 = Some [''2'', ''7'', ''6'', ''1'']"
  by code_simp

subsection \<open>What layout writes into atoms\<close>

text \<open>
  C5 (as amended). Layout writes into atoms in two places, and each of the two functions
  writes nothing but what is named here. \<^verbatim>\<open>FencedAtom::createBox\<close> leaves \<^verbatim>\<open>_l\<close>, \<^verbatim>\<open>_r\<close>
  and the pointers in \<^verbatim>\<open>_m\<close> alone and does nothing to an atom without base. With a base,
  the base it leaves is the base as its own layout left it, laid out with the breakable flag
  of a row cleared; and every middle atom of \<^verbatim>\<open>_m\<close> is as the layout of the base left it but
  for \<^verbatim>\<open>_height\<close>, which now holds the extent of the base box, while every other middle atom
  is as the layout of the base left it. \<^verbatim>\<open>SideSetsAtom::createBox\<close> leaves as base the base
  it was given, or a new phantom, as its layout left it; a left or right Scripts atom without
  base has got the placeholder atom as base, with the measurements of the base box, and the
  left one is aligned to the right; a side that is a Scripts atom with a base, or null, is
  unchanged. If the \<^verbatim>\<open>createBox\<close> of the atom kinds outside these sources writes nothing,
  these writes are all there is: the Fenced atom is what it was but for the flag, the middle
  atoms not in \<^verbatim>\<open>_m\<close> are what they were and those in \<^verbatim>\<open>_m\<close> keep their symbol and their
  placeholder, and the SideSets atom has the phantom as base or keeps the base it had, and keeps
  every side that is not a Scripts atom without base, so that with a base and no such side it
  is not changed at all.
\<close>

theorem layout_writes_are_confined:
  "(case FencedAtom_createBox X e S fa of (hb, fa', S') \<Rightarrow>
       f_l fa' = f_l fa \<and> f_r fa' = f_r fa \<and> f_m fa' = f_m fa
     \<and> (f_base fa = None \<longrightarrow> fa' = fa \<and> S' = S)
     \<and> (\<forall>a0. f_base fa = Some a0 \<longrightarrow>
          (case createBox_child X (unbreakable a0) e S of (b0, a, S1) \<Rightarrow>
             f_base fa' = Some a
           \<and> (\<forall>p. middleAtoms S' p =
                   (if p \<in> set (f_m fa) then (middleAtoms S1 p)\<lparr>m_height := vlen b0\<rparr>
                    else middleAtoms S1 p)))))
   \<and> (case SideSetsAtom_createBox X e S sa of (hb, sa', S') \<Rightarrow>
        (case createBox_child X
                (case ss_base sa of
                   None \<Rightarrow> PhantomAtom [CharAtom CHR ''M'' ''mathnormal''] False True True
                 | Some b \<Rightarrow> b) e S of (bb, base1, S1) \<Rightarrow>
           ss_base sa' = Some base1
         \<and> (\<forall>suba supa al. ss_left sa = Some (ScriptsAtom None suba supa al) \<longrightarrow>
               ss_left sa' = Some (ScriptsAtom
                                     (Some (PlaceholderAtom 0 (height bb) (depth bb) (shiftOf S1 bb)))
                                     suba supa Alignment_right))
         \<and> (\<forall>suba supa al. ss_right sa = Some (ScriptsAtom None suba supa al) \<longrightarrow>
               ss_right sa' = Some (ScriptsAtom
                                      (Some (PlaceholderAtom 0 (height bb) (depth bb) (shiftOf S1 bb)))
                                      suba supa al))
         \<and> (\<forall>b suba supa al. ss_left sa = Some (ScriptsAtom (Some b) suba supa al) \<longrightarrow>
               ss_left sa' = ss_left sa)
         \<and> (\<forall>b suba supa al. ss_right sa = Some (ScriptsAtom (Some b) suba supa al) \<longrightarrow>
               ss_right sa' = ss_right sa)
         \<and> (ss_left sa = None \<longrightarrow> ss_left sa' = None)
         \<and> (ss_right sa = None \<longrightarrow> ss_right sa' = None)))
   \<and> ((\<forall>c T. snd (createBoxOf X c e T) = (c, T)) \<longrightarrow>
        (case FencedAtom_createBox X e S fa of (hb, fa', S') \<Rightarrow>
           fa' = fa\<lparr>f_base := map_option unbreakable (f_base fa)\<rparr>
         \<and> (\<forall>p. p \<notin> set (f_m fa) \<longrightarrow> middleAtoms S' p = middleAtoms S p)
         \<and> (\<forall>p \<in> set (f_m fa).
               m_sym (middleAtoms S' p) = m_sym (middleAtoms S p)
             \<and> m_placeholder (middleAtoms S' p) = m_placeholder (middleAtoms S p)))
      \<and> (case SideSetsAtom_createBox X e S sa of (hb, sa', S') \<Rightarrow>
           S' = S
         \<and> (ss_base sa = None \<longrightarrow>
               ss_base sa' = Some (PhantomAtom [CharAtom CHR ''M'' ''mathnormal''] False True True))
         \<and> (ss_base sa \<noteq> None \<longrightarrow> ss_base sa' = ss_base sa)
         \<and> (\<not> lacks_base (ss_left sa) \<longrightarrow> ss_left sa' = ss_left sa)
         \<and> (\<not> lacks_base (ss_right sa) \<longrightarrow> ss_right sa' = ss_right sa)
         \<and> (ss_base sa \<noteq> None \<and> \<not> lacks_base (ss_left sa) \<and> \<not> lacks_base (ss_right sa)
              \<longrightarrow> sa' = sa)))"
proof -
  obtain hb fa' S' where F: "FencedAtom_createBox X e S fa = (hb, fa', S')"
    by (cases "FencedAtom_createBox X e S fa")
  obtain hs sa' T' where SS: "SideSetsAtom_createBox X e S sa = (hs, sa', T')"
    by (cases "SideSetsAtom_createBox X e S sa")
  define base where "base = (case ss_base sa of
                   None \<Rightarrow> PhantomAtom [CharAtom CHR ''M'' ''mathnormal''] False True True
                 | Some b \<Rightarrow> b)"
  obtain bb base1 S1 where B: "createBox_child X base e S = (bb, base1, S1)"
    by (cases "createBox_child X base e S")
  define pa where "pa = PlaceholderAtom 0 (height bb) (depth bb) (shiftOf S1 bb)"
  note W = SideSetsAtom_createBox_writes [OF B [unfolded base_def], folded pa_def, unfolded SS, simplified]
  have F1: "f_l fa' = f_l fa \<and> f_r fa' = f_r fa \<and> f_m fa' = f_m fa
     \<and> (f_base fa = None \<longrightarrow> fa' = fa \<and> S' = S)
     \<and> (\<forall>a0. f_base fa = Some a0 \<longrightarrow>
          (case createBox_child X (unbreakable a0) e S of (b0, a, S1) \<Rightarrow>
             f_base fa' = Some a
           \<and> (\<forall>p. middleAtoms S' p =
                   (if p \<in> set (f_m fa) then (middleAtoms S1 p)\<lparr>m_height := vlen b0\<rparr>
                    else middleAtoms S1 p))))"
  proof (cases "f_base fa")
    case None
    with F show ?thesis by (simp add: FencedAtom_createBox_def)
  next
    case (Some a0)
    obtain b0 a R1 where C: "createBox_child X (unbreakable a0) e S = (b0, a, R1)"
      by (cases "createBox_child X (unbreakable a0) e S")
    from FencedAtom_createBox_writes [OF Some C] F
    show ?thesis by (simp add: Some C)
  qed
  have S1: "ss_base sa' = Some base1
         \<and> (\<forall>suba supa al. ss_left sa = Some (ScriptsAtom None suba supa al) \<longrightarrow>
               ss_left sa' = Some (ScriptsAtom (Some pa) suba supa Alignment_right))
         \<and> (\<forall>suba supa al. ss_right sa = Some (ScriptsAtom None suba supa al) \<longrightarrow>
               ss_right sa' = Some (ScriptsAtom (Some pa) suba supa al))
         \<and> (\<forall>b suba supa al. ss_left sa = Some (ScriptsAtom (Some b) suba supa al) \<longrightarrow>
               ss_left sa' = ss_left sa)
         \<and> (\<forall>b suba supa al. ss_right sa = Some (ScriptsAtom (Some b) suba supa al) \<longrightarrow>
               ss_right sa' = ss_right sa)
         \<and> (ss_left sa = None \<longrightarrow> ss_left sa' = None)
         \<and> (ss_right sa = None \<longrightarrow> ss_right sa' = None)"
    using W(1) by (auto simp: layout_side_Scripts layout_side_None)
  have P: "fa' = fa\<lparr>f_base := map_option unbreakable (f_base fa)\<rparr>
         \<and> (\<forall>p. p \<notin> set (f_m fa) \<longrightarrow> middleAtoms S' p = middleAtoms S p)
         \<and> (\<forall>p \<in> set (f_m fa).
               m_sym (middleAtoms S' p) = m_sym (middleAtoms S p)
             \<and> m_placeholder (middleAtoms S' p) = m_placeholder (middleAtoms S p))"
       "T' = S
         \<and> (ss_base sa = None \<longrightarrow>
               ss_base sa' = Some (PhantomAtom [CharAtom CHR ''M'' ''mathnormal''] False True True))
         \<and> (ss_base sa \<noteq> None \<longrightarrow> ss_base sa' = ss_base sa)
         \<and> (\<not> lacks_base (ss_left sa) \<longrightarrow> ss_left sa' = ss_left sa)
         \<and> (\<not> lacks_base (ss_right sa) \<longrightarrow> ss_right sa' = ss_right sa)
         \<and> (ss_base sa \<noteq> None \<and> \<not> lacks_base (ss_left sa) \<and> \<not> lacks_base (ss_right sa)
              \<longrightarrow> sa' = sa)"
    if pure: "\<forall>c T. snd (createBoxOf X c e T) = (c, T)"
  proof -
    note cp = createBox_child_pure [OF pure]
    note lp = layout_side_pure [OF pure]
    show "fa' = fa\<lparr>f_base := map_option unbreakable (f_base fa)\<rparr>
         \<and> (\<forall>p. p \<notin> set (f_m fa) \<longrightarrow> middleAtoms S' p = middleAtoms S p)
         \<and> (\<forall>p \<in> set (f_m fa).
               m_sym (middleAtoms S' p) = m_sym (middleAtoms S p)
             \<and> m_placeholder (middleAtoms S' p) = m_placeholder (middleAtoms S p))"
    proof (cases "f_base fa")
      case None
      with F show ?thesis by (simp add: FencedAtom_createBox_def)
    next
      case (Some a0)
      obtain b0 where C: "createBox_child X (unbreakable a0) e S = (b0, unbreakable a0, S)"
        using cp [of "unbreakable a0" S] by (cases "createBox_child X (unbreakable a0) e S") simp
      from FencedAtom_createBox_writes [OF Some C] F
      show ?thesis by (simp add: Some)
    qed
    have b1: "base1 = base" "S1 = S" using cp [of base S] B by simp_all
    have l: "snd (layout_side X e (sideset_left pa (ss_left sa)) S) = (sideset_left pa (ss_left sa), S)"
      by (rule lp)
    have r: "snd (layout_side X e (sideset_right pa (ss_right sa)) S) = (sideset_right pa (ss_right sa), S)"
      by (rule lp)
    have sa': "sa' = \<lparr>ss_base = Some base, ss_left = sideset_left pa (ss_left sa),
                       ss_right = sideset_right pa (ss_right sa)\<rparr>"
      using W(1) by (simp add: b1 l r)
    have T': "T' = S" using W(2) by (simp add: b1 l r)
    show "T' = S
         \<and> (ss_base sa = None \<longrightarrow>
               ss_base sa' = Some (PhantomAtom [CharAtom CHR ''M'' ''mathnormal''] False True True))
         \<and> (ss_base sa \<noteq> None \<longrightarrow> ss_base sa' = ss_base sa)
         \<and> (\<not> lacks_base (ss_left sa) \<longrightarrow> ss_left sa' = ss_left sa)
         \<and> (\<not> lacks_base (ss_right sa) \<longrightarrow> ss_right sa' = ss_right sa)
         \<and> (ss_base sa \<noteq> None \<and> \<not> lacks_base (ss_left sa) \<and> \<not> lacks_base (ss_right sa)
              \<longrightarrow> sa' = sa)"
      by (auto simp: sa' T' base_def sideset_left_keeps sideset_right_keeps)
  qed
  show ?thesis
    unfolding F SS prod.case base_def [symmetric] B pa_def [symmetric]
    using F1 S1 P by blast
qed

text \<open>
  The theorem at the first sample Fenced atom, at a Fenced atom without base, at the sample
  SideSets atom without base and at one that has a base and a left Scripts atom with a base;
  the sample layout of a child writes nothing.
\<close>

theorem layout_writes_are_confined_witness:
  "f_base example_fenced = Some (RowAtom [EmptyAtom, MiddleAtomAt 0, SymbolAtom ''y''] True)
   \<and> fst (snd (FencedAtom_createBox example_externals example_env example_shared example_fenced))
       = example_fenced\<lparr>f_base := Some (RowAtom [EmptyAtom, MiddleAtomAt 0, SymbolAtom ''y''] False)\<rparr>
   \<and> middleAtoms (snd (snd (FencedAtom_createBox example_externals example_env example_shared
                               example_fenced))) 0
       = \<lparr>m_sym = ''vert'', m_height = 2, m_placeholder = 10\<rparr>
   \<and> middleAtoms (snd (snd (FencedAtom_createBox example_externals example_env example_shared
                               example_fenced))) 1
       = middleAtoms example_shared 1
   \<and> snd (FencedAtom_createBox example_externals example_env example_shared
            \<lparr>f_base = None, f_l = ''lbrack'', f_r = ''.'', f_m = [0]\<rparr>)
       = (\<lparr>f_base = None, f_l = ''lbrack'', f_r = ''.'', f_m = [0]\<rparr>, example_shared)
   \<and> ss_left example_sidesets = Some (ScriptsAtom None (Some (SymbolAtom ''a'')) None Alignment_left)
   \<and> fst (snd (SideSetsAtom_createBox example_externals example_env example_shared example_sidesets))
       = \<lparr>ss_base = Some (PhantomAtom [CharAtom CHR ''M'' ''mathnormal''] False True True),
          ss_left = Some (ScriptsAtom (Some (PlaceholderAtom 0 (3 / 2) (1 / 2) 0))
                            (Some (SymbolAtom ''a'')) None Alignment_right),
          ss_right = None\<rparr>
   \<and> ss_base example_sidesets_based \<noteq> None
   \<and> \<not> lacks_base (ss_left example_sidesets_based)
   \<and> \<not> lacks_base (ss_right example_sidesets_based)
   \<and> snd (SideSetsAtom_createBox example_externals example_env example_shared example_sidesets_based)
       = (example_sidesets_based, example_shared)"
proof -
  have pure: "\<forall>c T. snd (createBoxOf example_externals c example_env T) = (c, T)"
    by (simp add: example_externals_def example_createBoxOf_def split: atom.split)
  have h1: "f_base example_fenced = Some (RowAtom [EmptyAtom, MiddleAtomAt 0, SymbolAtom ''y''] True)"
    by (simp add: example_fenced_def)
  have h2: "createBox_child example_externals (RowAtom [EmptyAtom, MiddleAtomAt 0, SymbolAtom ''y''] False)
              example_env example_shared
       = (Box 1 (3 / 2) (1 / 2) 0 [Box 0 0 0 0 [], PlaceholderBox 10, Box 1 (3 / 2) (1 / 2) 0 []],
          RowAtom [EmptyAtom, MiddleAtomAt 0, SymbolAtom ''y''] False, example_shared)"
    by (simp add: createBox_child_def example_externals_def example_createBoxOf_def example_leaf_def
          example_env_def example_shared_def MiddleAtom_createBox_def)
  have h3: "createBox_child example_externals (PhantomAtom [CharAtom CHR ''M'' ''mathnormal''] False True True)
              example_env example_shared
       = (Box 0 (3 / 2) (1 / 2) 0 [], PhantomAtom [CharAtom CHR ''M'' ''mathnormal''] False True True,
          example_shared)"
    by (simp add: createBox_child_def example_externals_def example_createBoxOf_def example_leaf_def
          example_env_def)
  have h4: "ss_base example_sidesets = None"
    "ss_left example_sidesets = Some (ScriptsAtom None (Some (SymbolAtom ''a'')) None Alignment_left)"
    "ss_right example_sidesets = None"
    by (simp_all add: example_sidesets_def)
  have h5: "ss_base example_sidesets_based \<noteq> None \<and> \<not> lacks_base (ss_left example_sidesets_based)
     \<and> \<not> lacks_base (ss_right example_sidesets_based)"
    by (simp add: example_sidesets_based_def)
  have h6: "f_m example_fenced = [0]" "f_l example_fenced = ''lbrack''" "f_r example_fenced = ''.''"
    by (simp_all add: example_fenced_def)
  from layout_writes_are_confined [where X = example_externals and e = example_env
            and S = example_shared and fa = example_fenced and sa = example_sidesets]
       layout_writes_are_confined [where X = example_externals and e = example_env
            and S = example_shared
            and fa = "\<lparr>f_base = None, f_l = ''lbrack'', f_r = ''.'', f_m = [0]\<rparr>"
            and sa = example_sidesets_based]
       pure h1 h2 h3 h4 h5 h6
  show ?thesis
    by (simp add: split_beta prod_eq_iff vlen_def example_shared_def)
qed

text \<open>
  C5 in its original wording lets no field of an atom change during layout. Laying out the
  first sample Fenced atom clears the breakable flag of its base row and turns the height 0
  of its middle atom, which is an element of that row, into 2; laying out the sample SideSets
  atom installs a phantom base and gives the left Scripts atom a placeholder base and right
  alignment.
\<close>

theorem layout_mutates_atoms_counterexample:
  "fst (snd (FencedAtom_createBox example_externals example_env example_shared example_fenced)) =
     \<lparr>f_base = Some (RowAtom [EmptyAtom, MiddleAtomAt 0, SymbolAtom ''y''] False),
      f_l = ''lbrack'', f_r = ''.'', f_m = [0]\<rparr>
   \<and> fst (snd (FencedAtom_createBox example_externals example_env example_shared example_fenced))
       \<noteq> example_fenced
   \<and> middleAtoms example_shared 0 = \<lparr>m_sym = ''vert'', m_height = 0, m_placeholder = 10\<rparr>
   \<and> middleAtoms (snd (snd (FencedAtom_createBox example_externals example_env example_shared
                               example_fenced))) 0
       = \<lparr>m_sym = ''vert'', m_height = 2, m_placeholder = 10\<rparr>
   \<and> fst (snd (SideSetsAtom_createBox example_externals example_env example_shared example_sidesets)) =
     \<lparr>ss_base = Some (PhantomAtom [CharAtom CHR ''M'' ''mathnormal''] False True True),
      ss_left = Some (ScriptsAtom (Some (PlaceholderAtom 0 (3 / 2) (1 / 2) 0))
                        (Some (SymbolAtom ''a'')) None Alignment_right),
      ss_right = None\<rparr>
   \<and> fst (snd (SideSetsAtom_createBox example_externals example_env example_shared example_sidesets))
       \<noteq> example_sidesets"
  by (simp add: FencedAtom_createBox_def SideSetsAtom_createBox_def layout_side_def
        createBox_child_def example_fenced_def example_sidesets_def example_shared_def
        example_env_def example_externals_def example_createBoxOf_def example_leaf_def center_def
        fenced_delim_def middle_box_def MiddleAtom_createBox_def createVDelim_def vlen_def Let_def
        PhantomAtom_new_def RowAtom_new_def StrutBox_def StrutBox_empty_def)

subsection \<open>Predefined formulas\<close>

text \<open>
  C6. \<^verbatim>\<open>Formula::get\<close> does not hand out copies. For the registered name "one", whose text
  parses to a single symbol, the first call creates the formula object 0 and stores it in the
  registry; the second call returns the same object 0, and the heap still holds that one
  formula.
\<close>

theorem get_returns_the_registry_object:
  "fst (Formula_get example_parser ''one'' example_registry) = Inr 0
   \<and> fst (Formula_get example_parser ''one'' (snd (Formula_get example_parser ''one'' example_registry))) = Inr 0
   \<and> predefinedTeXFormulas (snd (Formula_get example_parser ''one'' example_registry)) ''one'' = Some 0
   \<and> heap (snd (Formula_get example_parser ''one'' (snd (Formula_get example_parser ''one'' example_registry))))
       = [\<lparr>f_root = Some (SymbolAtom ''x''), f_textStyle = []\<rparr>]"
  by (simp add: Formula_get_def Formula_latex_def example_parser_def example_registry_def)

subsection \<open>Recovery from parse errors\<close>

text \<open>
  C7 (as amended). Let the parser end with an exception of any kind. In partial mode the
  constructors \<^verbatim>\<open>Formula(tp, latex, textStyle, firstpass, ignoreWhiteSpace)\<close>,
  \<^verbatim>\<open>Formula(tp, latex, textStyle)\<close> and \<^verbatim>\<open>Formula(tp, latex)\<close> catch it and return a formula
  whose root is the root built before the exception, or an empty atom when no root had been
  built; the root is never null. In strict mode every constructor lets the exception
  through, and so does \<^verbatim>\<open>Formula(latex)\<close>.
\<close>

theorem partial_parse_recovery:
  assumes "P isPartial latex = (r, Some ex)"
  shows "(isPartial \<longrightarrow>
            Formula_tp_latex_textStyle_firstpass P isPartial latex style
              = Inr \<lparr>f_root = recovered_root r, f_textStyle = style\<rparr>
          \<and> Formula_tp_latex_textStyle P isPartial latex style
              = Inr \<lparr>f_root = recovered_root r, f_textStyle = style\<rparr>
          \<and> Formula_tp_latex P isPartial latex
              = Inr \<lparr>f_root = recovered_root r, f_textStyle = []\<rparr>
          \<and> recovered_root r \<noteq> None)
       \<and> (\<not> isPartial \<longrightarrow>
            Formula_tp_latex_textStyle_firstpass P isPartial latex style = Inl ex
          \<and> Formula_tp_latex_textStyle P isPartial latex style = Inl ex
          \<and> Formula_tp_latex P isPartial latex = Inl ex
          \<and> Formula_tp_latex_firstpass P isPartial latex = Inl ex
          \<and> Formula_latex P latex = Inl ex)"
  using assms
  by (cases r; cases isPartial)
     (simp_all add: Formula_tp_latex_textStyle_firstpass_def Formula_tp_latex_textStyle_def
        Formula_tp_latex_def Formula_tp_latex_firstpass_def Formula_latex_def recovered_root_def)

text \<open>
  A text on which the sample parser fails before it has built anything, in partial mode, and
  a text on which it fails after it has built a symbol, in strict mode.
\<close>

theorem partial_parse_recovery_witness:
  "example_parser True ''}'' = (None, Some ex_parse)
   \<and> Formula_tp_latex_textStyle example_parser True ''}'' ''mathrm''
       = Inr \<lparr>f_root = Some EmptyAtom, f_textStyle = ''mathrm''\<rparr>
   \<and> example_parser False ''a}'' = (Some (SymbolAtom ''a''), Some ex_parse)
   \<and> Formula_tp_latex_textStyle example_parser False ''a}'' ''mathrm'' = Inl ex_parse
   \<and> Formula_latex example_parser ''a}'' = Inl ex_parse"
proof -
  have h1: "example_parser True ''}'' = (None, Some ex_parse)"
    by (simp add: example_parser_def)
  have h2: "example_parser False ''a}'' = (Some (SymbolAtom ''a''), Some ex_parse)"
    by (simp add: example_parser_def)
  from partial_parse_recovery [of example_parser True "''}''" None ex_parse "''mathrm''"]
       partial_parse_recovery [of example_parser False "''a}''" "Some (SymbolAtom ''a'')" ex_parse "''mathrm''"]
       h1 h2
  show ?thesis by (simp add: recovered_root_def)
qed

text \<open>
  C7 in its original wording makes the root an empty atom after every parse error caught in
  partial mode, and lets the other error kinds through. When the sample parser has built the
  symbol a before its parse error, the root of the formula is that symbol; and its
  symbol-not-found error is caught in partial mode like a parse error.
\<close>

theorem partial_parse_root_counterexample:
  "example_parser True ''a}'' = (Some (SymbolAtom ''a''), Some ex_parse)
   \<and> Formula_tp_latex example_parser True ''a}''
       = Inr \<lparr>f_root = Some (SymbolAtom ''a''), f_textStyle = []\<rparr>
   \<and> SymbolAtom ''a'' \<noteq> EmptyAtom
   \<and> example_parser True ''?'' = (None, Some ex_symbol_not_found)
   \<and> Formula_tp_latex example_parser True ''?''
       = Inr \<lparr>f_root = Some EmptyAtom, f_textStyle = []\<rparr>"
  by (simp add: Formula_tp_latex_def Formula_tp_latex_textStyle_def example_parser_def)

subsection \<open>Array dimensions\<close>

text \<open>
  C8 (as amended). Let \<open>f1\<close> be the array formula after the first statement of
  \<^verbatim>\<open>checkDimensions\<close> has closed the last row, and let no row before its last one be empty.
  Then \<^verbatim>\<open>checkDimensions\<close> returns; the row count is the number of rows before the last one,
  the column count is the length of the widest of them, every such row whose first cell is an
  atom that is not an inter-text marker is the old row followed by null cells up to the
  column count, and every other row (its first cell is null or an inter-text marker) is left
  as it was, as is the last row.
\<close>

theorem checkDimensions_fills_rows:
  assumes "checkDimensions_close f = Some f1"
    and "[] \<notin> set (butlast (a_array f1))"
  shows "\<exists>g. checkDimensions typeOf f = Some g
          \<and> a_row g = length (a_array f1) - 1
          \<and> length (a_array g) = length (a_array f1)
          \<and> (\<forall>i < a_row g. length (a_array f1 ! i) \<le> a_col g)
          \<and> (0 < a_row g \<longrightarrow> (\<exists>i < a_row g. length (a_array f1 ! i) = a_col g))
          \<and> (\<forall>i < a_row g.
                a_array g ! i =
                  (if wants_fill typeOf (a_array f1 ! i)
                   then a_array f1 ! i @ replicate (a_col g - length (a_array f1 ! i)) None
                   else a_array f1 ! i))
          \<and> a_array g ! a_row g = a_array f1 ! a_row g"
proof -
  let ?arr = "a_array f1"
  let ?row = "length ?arr - 1"
  let ?col = "widest_loop ?arr ?row 1 (length (?arr ! 0))"
  have ne: "?arr \<noteq> []"
    using assms(1)
    by (auto simp: checkDimensions_close_def addRow_def split: if_splits option.splits)
  have rows: "\<forall>k. 0 \<le> k \<and> k < ?row \<longrightarrow> ?arr ! k \<noteq> []"
  proof (intro allI impI)
    fix k assume "0 \<le> k \<and> k < ?row"
    then have "k < length (butlast ?arr)" by simp
    then have "butlast ?arr ! k \<in> set (butlast ?arr)" by (rule nth_mem)
    moreover have "butlast ?arr ! k = ?arr ! k"
      using \<open>k < length (butlast ?arr)\<close> by (simp add: nth_butlast)
    ultimately show "?arr ! k \<noteq> []" using assms(2) by auto
  qed
  have le: "?row \<le> length ?arr" by simp
  from fill_loop_result [OF le rows, of typeOf ?col]
  obtain arr' where A: "fill_loop typeOf ?arr ?row ?col 0 = Some arr'"
    and L: "length arr' = length ?arr"
    and N: "\<forall>k < length ?arr. arr' ! k =
                (if 0 \<le> k \<and> k < ?row
                 then (if wants_fill typeOf (?arr ! k)
                       then ?arr ! k @ replicate (?col - length (?arr ! k)) None else ?arr ! k)
                 else ?arr ! k)"
    by blast
  let ?g = "f1\<lparr>a_row := ?row, a_col := ?col, a_array := arr'\<rparr>"
  have G: "checkDimensions typeOf f = Some ?g"
    using assms(1) ne A by (simp add: checkDimensions_def checkDimensions_fill_def Let_def)
  note W = widest_loop_bounds [of "length (?arr ! 0)" ?arr ?row 1]
  have ub: "\<forall>i < ?row. length (?arr ! i) \<le> ?col"
  proof (intro allI impI)
    fix i assume i: "i < ?row"
    show "length (?arr ! i) \<le> ?col"
    proof (cases "i = 0")
      case True
      then show ?thesis using W by simp
    next
      case False
      with i have "1 \<le> i \<and> i < ?row" by simp
      then show ?thesis using W by blast
    qed
  qed
  have att: "0 < ?row \<longrightarrow> (\<exists>i < ?row. length (?arr ! i) = ?col)"
  proof
    assume pos: "0 < ?row"
    from W have "?col = length (?arr ! 0)
        \<or> (\<exists>k. 1 \<le> k \<and> k < ?row \<and> length (?arr ! k) = ?col)"
      by blast
    then show "\<exists>i < ?row. length (?arr ! i) = ?col"
    proof
      assume "?col = length (?arr ! 0)"
      with pos show ?thesis by (intro exI [of _ 0]) simp
    next
      assume "\<exists>k. 1 \<le> k \<and> k < ?row \<and> length (?arr ! k) = ?col"
      then show ?thesis by blast
    qed
  qed
  have fill: "\<forall>i < ?row. arr' ! i =
                  (if wants_fill typeOf (?arr ! i)
                   then ?arr ! i @ replicate (?col - length (?arr ! i)) None
                   else ?arr ! i)"
    using N by simp
  have lastrow: "arr' ! ?row = ?arr ! ?row"
    using N ne by simp
  show ?thesis
    using G L ub att fill lastrow by simp
qed

text \<open>
  Two rows: the first has three cells; the second is still open and holds one atom that is
  not an inter-text marker. The second row ends with three cells, two of them null.
\<close>

theorem checkDimensions_fills_rows_witness:
  "checkDimensions_close example_array = Some example_array_closed
   \<and> [] \<notin> set (butlast (a_array example_array_closed))
   \<and> checkDimensions example_typeOf example_array =
       Some \<lparr>a_root = None, a_row = 2, a_col = 3,
         a_array = [[Some (SymbolAtom ''a''), Some (SymbolAtom ''b''), Some (SymbolAtom ''c'')],
                    [Some (SymbolAtom ''x''), None, None], []]\<rparr>"
proof -
  have h1: "checkDimensions_close example_array = Some example_array_closed"
    by (simp add: checkDimensions_close_def addRow_def addCol_def example_array_def
          example_array_closed_def)
  have h2: "[] \<notin> set (butlast (a_array example_array_closed))"
    by (simp add: example_array_closed_def)
  have h3: "checkDimensions example_typeOf example_array =
       Some \<lparr>a_root = None, a_row = 2, a_col = 3,
         a_array = [[Some (SymbolAtom ''a''), Some (SymbolAtom ''b''), Some (SymbolAtom ''c'')],
                    [Some (SymbolAtom ''x''), None, None], []]\<rparr>"
    using checkDimensions_fills_rows [OF h1 h2, of example_typeOf]
    by (simp add: checkDimensions_def h1 checkDimensions_fill_def example_array_closed_def
          Let_def fill_loop.simps widest_loop.simps fill_row_def example_typeOf_def)
  from h1 h2 h3 show ?thesis by simp
qed

text \<open>
  C8 in its original wording fills every row but those that start with an inter-text marker.
  A second row whose first cell is null (an empty first cell) and which has two cells keeps
  its two cells, although the column count is three.
\<close>

theorem checkDimensions_null_first_cell_counterexample:
  "checkDimensions example_typeOf example_array_empty_cell =
       Some \<lparr>a_root = None, a_row = 2, a_col = 3,
         a_array = [[Some (SymbolAtom ''a''), Some (SymbolAtom ''b''), Some (SymbolAtom ''c'')],
                    [None, Some (SymbolAtom ''d'')], []]\<rparr>
   \<and> length [None, Some (SymbolAtom ''d'')] < (3::nat)"
  by (simp add: checkDimensions_def checkDimensions_close_def checkDimensions_fill_def
        example_array_empty_cell_def Let_def fill_loop.simps widest_loop.simps fill_row_def
        example_typeOf_def)

subsection \<open>The cache of predefined formulas\<close>

text \<open>
  C9 (as amended). On the first lookup of a registered name whose text parses, the formula is
  stored in the cache exactly when its root is not a Row atom, whatever the number of
  children of the row. After a Row root the cache is as before and the next lookup parses
  again and returns a new formula object; after any other root the next lookup returns the
  cached object and changes nothing.
\<close>

theorem cache_stores_unless_row:
  assumes "predefinedTeXFormulas st name = None"
    and "predefinedTeXFormulasAsString st name = Some latex"
    and "Formula_latex P latex = Inr f"
  shows "fst (Formula_get P name st) = Inr (length (heap st))
       \<and> (predefinedTeXFormulas (snd (Formula_get P name st)) name \<noteq> None) = (\<not> is_RowAtom (f_root f))
       \<and> (is_RowAtom (f_root f) \<longrightarrow>
            predefinedTeXFormulas (snd (Formula_get P name st)) = predefinedTeXFormulas st
          \<and> fst (Formula_get P name (snd (Formula_get P name st))) = Inr (length (heap st) + 1))
       \<and> (\<not> is_RowAtom (f_root f) \<longrightarrow>
            predefinedTeXFormulas (snd (Formula_get P name st)) name = Some (length (heap st))
          \<and> Formula_get P name (snd (Formula_get P name st))
              = (Inr (length (heap st)), snd (Formula_get P name st)))"
  using assms by (simp add: Formula_get_def Let_def)

text \<open>The name "sum", whose text parses to a row of three atoms.\<close>

theorem cache_stores_unless_row_witness:
  "predefinedTeXFormulas example_registry ''sum'' = None
   \<and> predefinedTeXFormulasAsString example_registry ''sum'' = Some ''a+b''
   \<and> Formula_latex example_parser ''a+b''
       = Inr \<lparr>f_root = Some (RowAtom [SymbolAtom ''a'', SymbolAtom ''+'', SymbolAtom ''b''] True), f_textStyle = []\<rparr>
   \<and> fst (Formula_get example_parser ''sum'' example_registry) = Inr 0
   \<and> predefinedTeXFormulas (snd (Formula_get example_parser ''sum'' example_registry)) ''sum'' = None
   \<and> fst (Formula_get example_parser ''sum'' (snd (Formula_get example_parser ''sum'' example_registry))) = Inr 1"
proof -
  have h1: "predefinedTeXFormulas example_registry ''sum'' = None"
    by (simp add: example_registry_def)
  have h2: "predefinedTeXFormulasAsString example_registry ''sum'' = Some ''a+b''"
    by (simp add: example_registry_def)
  have h3: "Formula_latex example_parser ''a+b''
       = Inr \<lparr>f_root = Some (RowAtom [SymbolAtom ''a'', SymbolAtom ''+'', SymbolAtom ''b''] True), f_textStyle = []\<rparr>"
    by (simp add: Formula_latex_def example_parser_def)
  have h4: "heap example_registry = []"
    by (simp add: example_registry_def)
  from cache_stores_unless_row [OF h1 h2 h3] h1 h2 h3 h4
  show ?thesis by simp
qed

text \<open>
  C9 in its original wording stores every formula whose root is not a Row with several
  children. The text registered as "group" parses to a Row with one child, which is not
  such a Row, and the formula is not stored.
\<close>

theorem cache_skips_single_child_row_counterexample:
  "predefinedTeXFormulas (snd (Formula_get example_parser ''group'' example_registry)) ''group'' = None
   \<and> heap (snd (Formula_get example_parser ''group'' example_registry))
       = [\<lparr>f_root = Some (RowAtom [SymbolAtom ''x''] True), f_textStyle = []\<rparr>]
   \<and> \<not> multi_child_row (Some (RowAtom [SymbolAtom ''x''] True))"
  by (simp add: Formula_get_def Formula_latex_def example_parser_def example_registry_def)

subsection \<open>Initialisation\<close>

text \<open>
  C10. When \<^verbatim>\<open>isInited()\<close> is true, a call of \<^verbatim>\<open>MicroTeX::init\<close>, with a font source or with
  an \<^verbatim>\<open>Init\<close> value, returns the empty \<^verbatim>\<open>FontMeta\<close> and leaves the whole state as it is:
  the configuration with its flag and its two default font names, and the fonts and macros
  of the collaborators.
\<close>

theorem init_when_inited_changes_nothing:
  assumes "MicroTeX_isInited (cfg, w)"
  shows "MicroTeX_init C src (cfg, w) = (Inr FontMeta_empty, cfg, w)
       \<and> MicroTeX_init_auto C ini (cfg, w) = (Inr FontMeta_empty, cfg, w)"
  using assms by (simp add: MicroTeX_init_def MicroTeX_init_auto_def MicroTeX_isInited_def)

text \<open>An initialised configuration with no font registered: the font list stays empty.\<close>

theorem init_when_inited_changes_nothing_witness:
  "MicroTeX_isInited (example_config, [] :: FontMeta list)
   \<and> MicroTeX_init example_collaborators ''Other Math'' (example_config, [])
       = (Inr \<lparr>fm_family = [], fm_name = [], fm_isMathFont = False\<rparr>, example_config, [])
   \<and> MicroTeX_init_auto example_collaborators () (example_config, [])
       = (Inr \<lparr>fm_family = [], fm_name = [], fm_isMathFont = False\<rparr>, example_config, [])"
proof -
  have h: "MicroTeX_isInited (example_config, [] :: FontMeta list)"
    by (simp add: MicroTeX_isInited_def example_config_def)
  from init_when_inited_changes_nothing [OF h, of example_collaborators "''Other Math''" "()"] h
  show ?thesis by (simp add: FontMeta_empty_def)
qed

end
